theory Spec2Isabelle
  imports Complex_Main "HOL-Library.Sublist"
begin

section \<open>JavaScript strings\<close>

text \<open>
  A JavaScript string is modelled as a \<^typ>\<open>string\<close>: the list of its code units, for
  text whose code units are all below 256.  Within that range the white space of
  \<^verbatim>\<open>String.prototype.trim\<close> and of the regular-expression class \<^verbatim>\<open>\s\<close> is
  TAB, LF, VT, FF, CR, SPACE and NBSP.
\<close>

definition jsWhiteSpace :: "char \<Rightarrow> bool" where
  "jsWhiteSpace c \<longleftrightarrow>
     c = CHR 0x09 \<or> c = CHR 0x0A \<or> c = CHR 0x0B \<or> c = CHR 0x0C \<or> c = CHR 0x0D
     \<or> c = CHR 0x20 \<or> c = CHR 0xA0"

definition trimStart :: "string \<Rightarrow> string" where
  "trimStart s = dropWhile jsWhiteSpace s"

definition trimEnd :: "string \<Rightarrow> string" where
  "trimEnd s = rev (dropWhile jsWhiteSpace (rev s))"

definition trim :: "string \<Rightarrow> string" where
  "trim s = trimEnd (trimStart s)"

text \<open>\<^verbatim>\<open>s.endsWith(t)\<close> and \<^verbatim>\<open>s.startsWith(t)\<close>.\<close>

definition endsWith :: "string \<Rightarrow> string \<Rightarrow> bool" where
  "endsWith s t \<longleftrightarrow> length t \<le> length s \<and> drop (length s - length t) s = t"

definition startsWith :: "string \<Rightarrow> string \<Rightarrow> bool" where
  "startsWith s t \<longleftrightarrow> take (length t) s = t"

text \<open>
  \<^verbatim>\<open>s.slice(-n)\<close> for a count \<open>n \<ge> 0\<close>: the last \<open>n\<close> code units, the whole string
  when \<open>n\<close> exceeds the length, and the whole string for \<open>n = 0\<close> (\<^verbatim>\<open>-0\<close> is \<^verbatim>\<open>0\<close>).
\<close>

definition sliceFromEnd :: "nat \<Rightarrow> string \<Rightarrow> string" where
  "sliceFromEnd n s = (if n = 0 then s else drop (length s - n) s)"

section \<open>The client artifact\<close>

datatype ArtifactStatus = streaming | idle

record BoundingBox =
  top :: real
  left :: real
  width :: real
  height :: real

text \<open>
  \<^verbatim>\<open>UIArtifact\<close>.  The field \<open>kind\<close> holds the string the \<^verbatim>\<open>kind\<close> event carried
  (the source casts it to \<^verbatim>\<open>ArtifactKind\<close> without a check).
\<close>

record UIArtifact =
  documentId :: string
  content :: string
  kind :: string
  title :: string
  status :: ArtifactStatus
  isVisible :: bool
  boundingBox :: BoundingBox

definition initialArtifactData :: UIArtifact where
  "initialArtifactData =
     \<lparr>documentId = ''init'', content = '''', kind = ''text'', title = '''',
      status = idle, isVisible = False,
      boundingBox = \<lparr>top = 0, left = 0, width = 0, height = 0\<rparr>\<rparr>"

record Suggestion =
  suggestionId :: string
  suggestionDocumentId :: string
  originalText :: string
  suggestedText :: string
  description :: string
  isResolved :: bool

text \<open>
  \<^verbatim>\<open>DataStreamDelta\<close>: a record \<^verbatim>\<open>{type, content}\<close> on the channel.  The server sends
  a \<^verbatim>\<open>Suggestion\<close> object as content only with type \<^verbatim>\<open>suggestion\<close> and a string
  with every other type, so a delta is one constructor per type.
\<close>

datatype DataStreamDelta =
    TextDelta string
  | CodeDelta string
  | SheetDelta string
  | ImageDelta string
  | Title string
  | Id string
  | SuggestionDelta Suggestion
  | Clear string
  | Finish string
  | Kind string

section \<open>DataStreamHandler with de-duplication in the reducer\<close>

text \<open>
  The \<^verbatim>\<open>for (let i = ...; i > 0; i--)\<close> loop of the \<^verbatim>\<open>text-delta\<close> case: the result
  is \<^verbatim>\<open>contentToAdd\<close>.
\<close>

fun dedupLoop :: "string \<Rightarrow> string \<Rightarrow> nat \<Rightarrow> string" where
  "dedupLoop endOfExisting deltaContent 0 = deltaContent"
| "dedupLoop endOfExisting deltaContent (Suc i) =
     (if endsWith endOfExisting (take (Suc i) deltaContent)
      then drop (Suc i) deltaContent
      else dedupLoop endOfExisting deltaContent i)"

definition contentToAdd :: "string \<Rightarrow> string \<Rightarrow> string" where
  "contentToAdd existingContent deltaContent =
     (if length existingContent > 0 then
        (let overlapWindow = min (length deltaContent) 50;
             endOfExisting = sliceFromEnd overlapWindow existingContent
         in dedupLoop endOfExisting deltaContent (min overlapWindow (length deltaContent)))
      else deltaContent)"

text \<open>The updater passed to \<^verbatim>\<open>setArtifact\<close> for one delta (the \<^verbatim>\<open>switch\<close>).\<close>

fun applyDelta :: "DataStreamDelta \<Rightarrow> UIArtifact \<Rightarrow> UIArtifact" where
  "applyDelta (Id c) a = a\<lparr>documentId := c, status := streaming, isVisible := isVisible a\<rparr>"
| "applyDelta (Title c) a = a\<lparr>title := c, status := streaming, isVisible := isVisible a\<rparr>"
| "applyDelta (Kind c) a = a\<lparr>kind := c, status := streaming, isVisible := isVisible a\<rparr>"
| "applyDelta (Clear c) a = a\<lparr>content := '''', status := streaming, isVisible := isVisible a\<rparr>"
| "applyDelta (TextDelta c) a =
     a\<lparr>content := content a @ contentToAdd (content a) c, status := streaming,
       isVisible := isVisible a\<rparr>"
| "applyDelta (Finish c) a = a\<lparr>status := idle, isVisible := isVisible a\<rparr>"
| "applyDelta _ a = a"

text \<open>
  One iteration of the \<^verbatim>\<open>forEach\<close> over the new deltas: the \<^verbatim>\<open>onStreamPart\<close> of
  the artifact definition found for the rendered artifact's kind (if any), then the
  reducer.  The list \<^verbatim>\<open>artifactDefinitions\<close> is imported from a file outside the
  sources at hand, so the handler found is a parameter.
\<close>

type_synonym StreamPartHandler = "DataStreamDelta \<Rightarrow> UIArtifact \<Rightarrow> UIArtifact"

definition processDelta :: "StreamPartHandler option \<Rightarrow> DataStreamDelta \<Rightarrow> UIArtifact \<Rightarrow> UIArtifact" where
  "processDelta defn delta a =
     applyDelta delta (case defn of None \<Rightarrow> a | Some onStreamPart \<Rightarrow> onStreamPart delta a)"

definition processDeltas :: "StreamPartHandler option \<Rightarrow> DataStreamDelta list \<Rightarrow> UIArtifact \<Rightarrow> UIArtifact" where
  "processDeltas defn deltas a = foldl (\<lambda>acc delta. processDelta defn delta acc) a deltas"

section \<open>The text artifact's onStreamPart\<close>

text \<open>
  Only the \<^verbatim>\<open>setArtifact\<close> updates are modelled.  The \<^verbatim>\<open>setMetadata\<close> updates write to
  a separate store (messages, suggestions) that no artifact field is computed from.

  First the version that appends every fragment as it comes.
\<close>

fun textArtifact_onStreamPart :: StreamPartHandler where
  "textArtifact_onStreamPart (TextDelta c) a = a\<lparr>content := content a @ c, status := streaming\<rparr>"
| "textArtifact_onStreamPart (Finish c) a = a\<lparr>status := idle\<rparr>"
| "textArtifact_onStreamPart _ a = a"

text \<open>
  The later version: \<^verbatim>\<open>if (!content) return\<close>, then
  \<^verbatim>\<open>updatedContent = content.trim() ? content : ''\<close>.
\<close>

fun textArtifact_onStreamPart_skipBlank :: StreamPartHandler where
  "textArtifact_onStreamPart_skipBlank (TextDelta c) a =
     (if c = [] then a
      else (let updatedContent = (if trim c \<noteq> [] then c else [])
            in a\<lparr>content := content a @ updatedContent, status := streaming\<rparr>))"
| "textArtifact_onStreamPart_skipBlank (Finish c) a =
     a\<lparr>status := idle, isVisible := isVisible a\<rparr>"
| "textArtifact_onStreamPart_skipBlank _ a = a"

section \<open>DataStreamHandler with a text buffer\<close>

text \<open>
  The descending loop \<^verbatim>\<open>for (overlapSize = maxOverlapCheck; overlapSize > 2; overlapSize--)\<close>
  of \<^verbatim>\<open>flushTextBuffer\<close>; the result is \<^verbatim>\<open>(contentToAdd, deduplicationApplied)\<close>.
\<close>

fun overlapLoop :: "string \<Rightarrow> string \<Rightarrow> nat \<Rightarrow> string \<times> bool" where
  "overlapLoop endOfExisting toAdd 0 = (toAdd, False)"
| "overlapLoop endOfExisting toAdd (Suc n) =
     (if Suc n > 2 then
        (if length endOfExisting \<ge> Suc n \<and> length toAdd \<ge> Suc n
            \<and> sliceFromEnd (Suc n) endOfExisting = take (Suc n) toAdd
         then (drop (Suc n) toAdd, True)
         else overlapLoop endOfExisting toAdd n)
      else (toAdd, False))"

definition flushContentToAdd :: "string \<Rightarrow> string \<Rightarrow> string \<times> bool" where
  "flushContentToAdd existingContent bufferContent =
     (if length existingContent > 0 \<and> length bufferContent > 0 then
        (if endsWith existingContent bufferContent then ([], True)
         else (let maxOverlapCheck = min (length bufferContent) 100;
                   endOfExisting = sliceFromEnd maxOverlapCheck existingContent
               in overlapLoop endOfExisting bufferContent maxOverlapCheck))
      else (bufferContent, False))"

text \<open>The updater that \<^verbatim>\<open>flushTextBuffer\<close> passes to \<^verbatim>\<open>setArtifact\<close>.\<close>

definition flushReducer :: "string \<Rightarrow> UIArtifact \<Rightarrow> UIArtifact" where
  "flushReducer bufferContent a =
     (let existingContent = content a;
          (toAdd, deduplicationApplied) = flushContentToAdd existingContent bufferContent
      in if length toAdd = 0 \<and> deduplicationApplied then a
         else a\<lparr>content := existingContent @ toAdd, status := streaming,
                isVisible := isVisible a\<rparr>)"

text \<open>
  \<^verbatim>\<open>flushTextBuffer\<close> on the pair of the artifact and \<^verbatim>\<open>textDeltaBuffer.current\<close>:
  with \<^verbatim>\<open>ENABLE_PARALLEL_STREAMING = true\<close> the artifact's handler receives the
  buffered delta and the reducer runs after it; the buffer is cleared.
\<close>

definition flushTextBuffer :: "StreamPartHandler option \<Rightarrow> UIArtifact \<times> string \<Rightarrow> UIArtifact \<times> string" where
  "flushTextBuffer defn st =
     (let (a, buffer) = st
      in if length buffer > 0 then
           (flushReducer buffer
              (case defn of None \<Rightarrow> a | Some onStreamPart \<Rightarrow> onStreamPart (TextDelta buffer) a),
            [])
         else (a, buffer))"

text \<open>
  The value of \<^verbatim>\<open>textDeltaBuffer.current\<close> after the effect has run on a batch of new
  deltas: the text deltas are joined, and the join is added unless it trims to nothing.
\<close>

fun textDeltasOf :: "DataStreamDelta list \<Rightarrow> string list" where
  "textDeltasOf [] = []"
| "textDeltasOf (TextDelta c # ds) = c # textDeltasOf ds"
| "textDeltasOf (d # ds) = textDeltasOf ds"

definition bufferTextDeltas :: "DataStreamDelta list \<Rightarrow> string \<Rightarrow> string" where
  "bufferTextDeltas newDeltas buffer =
     (let textDeltas = textDeltasOf newDeltas in
      if length textDeltas > 0 then
        (let combinedText = concat textDeltas in
         if length (trim combinedText) > 0 then buffer @ combinedText else buffer)
      else buffer)"

section \<open>The hitbox of the document preview\<close>

text \<open>
  \<^verbatim>\<open>result\<close> is the tool result (\<^verbatim>\<open>any\<close>), read through \<^verbatim>\<open>result?.f || artifact.f\<close>:
  a missing or empty field falls back to the artifact's.
\<close>

record ToolResult =
  resultTitle :: "string option"
  resultId :: "string option"
  resultKind :: "string option"

definition jsOr :: "string option \<Rightarrow> string \<Rightarrow> string" where
  "jsOr v fallback = (case v of None \<Rightarrow> fallback | Some s \<Rightarrow> if s = [] then fallback else s)"

definition handleClick :: "ToolResult option \<Rightarrow> BoundingBox \<Rightarrow> UIArtifact \<Rightarrow> UIArtifact" where
  "handleClick result box a =
     a\<lparr>title := jsOr (Option.bind result resultTitle) (title a),
       documentId := jsOr (Option.bind result resultId) (documentId a),
       kind := jsOr (Option.bind result resultKind) (kind a),
       isVisible := True,
       boundingBox := box\<rparr>"

section \<open>Overlap, as the specification words it\<close>

text \<open>
  The last \<open>k\<close> characters of the buffer equal the first \<open>k\<close> characters of the
  fragment.
\<close>

definition spec_overlap :: "string \<Rightarrow> string \<Rightarrow> nat \<Rightarrow> bool" where
  "spec_overlap buffer fragment k \<longleftrightarrow>
     k \<le> length buffer \<and> k \<le> length fragment
     \<and> drop (length buffer - k) buffer = take k fragment"

text \<open>A run of buffer flushes, one per buffered string.\<close>

definition flushAll :: "StreamPartHandler option \<Rightarrow> string list \<Rightarrow> UIArtifact \<Rightarrow> UIArtifact" where
  "flushAll defn buffers a = foldl (\<lambda>acc buffer. fst (flushTextBuffer defn (acc, buffer))) a buffers"

text \<open>
  The handlers an artifact definition can contribute on the text path: none, or one of
  the two versions of the text artifact's handler.
\<close>

definition textHandlers :: "StreamPartHandler option set" where
  "textHandlers = {None, Some textArtifact_onStreamPart, Some textArtifact_onStreamPart_skipBlank}"

text \<open>The events that reset the content.\<close>

fun isClear :: "DataStreamDelta \<Rightarrow> bool" where
  "isClear (Clear c) = True"
| "isClear _ = False"

section \<open>Regular expressions\<close>

text \<open>
  The source works on strings through JavaScript regular expressions.  They are
  modelled by a backtracking matcher that returns every way a pattern can match at a
  position, in the order in which the JavaScript matcher tries them, so that the first
  result is the match JavaScript finds.  A result is the character before the end of the
  match (for \<^verbatim>\<open>^\<close>) and the rest of the input.
\<close>

datatype rx =
    Eps
  | Chr "char \<Rightarrow> bool"
  | Seq rx rx
  | Alt rx rx
  | Star rx
  | LazyStar rx
  | Bol
  | Eol
  | NegLook rx

definition lineTerminator :: "char \<Rightarrow> bool" where
  "lineTerminator c \<longleftrightarrow> c = CHR 0x0A \<or> c = CHR 0x0D"

fun rxm :: "rx \<Rightarrow> char option \<Rightarrow> string \<Rightarrow> (char option \<times> string) list" where
  "rxm Eps p s = [(p, s)]"
| "rxm (Chr P) p s = (case s of [] \<Rightarrow> [] | c # cs \<Rightarrow> if P c then [(Some c, cs)] else [])"
| "rxm (Seq a b) p s = concat (map (\<lambda>ps. rxm b (fst ps) (snd ps)) (rxm a p s))"
| "rxm (Alt a b) p s = rxm a p s @ rxm b p s"
| "rxm (Star a) p s =
     concat (map (\<lambda>ps. if length (snd ps) < length s then rxm (Star a) (fst ps) (snd ps) else [])
                 (rxm a p s)) @ [(p, s)]"
| "rxm (LazyStar a) p s =
     (p, s) # concat (map (\<lambda>ps. if length (snd ps) < length s
                                  then rxm (LazyStar a) (fst ps) (snd ps) else [])
                          (rxm a p s))"
| "rxm Bol p s = (case p of None \<Rightarrow> [(p, s)] | Some c \<Rightarrow> if lineTerminator c then [(p, s)] else [])"
| "rxm Eol p s = (case s of [] \<Rightarrow> [(p, s)] | c # cs \<Rightarrow> if lineTerminator c then [(p, s)] else [])"
| "rxm (NegLook a) p s = (if rxm a p s = [] then [(p, s)] else [])"

text \<open>Derived forms: \<^verbatim>\<open>r+\<close>, \<^verbatim>\<open>r?\<close>, \<^verbatim>\<open>r+?\<close>, a literal, a literal under the \<^verbatim>\<open>i\<close> flag.\<close>

definition Plus :: "rx \<Rightarrow> rx" where
  "Plus r = Seq r (Star r)"

definition Opt :: "rx \<Rightarrow> rx" where
  "Opt r = Alt r Eps"

definition LazyPlus :: "rx \<Rightarrow> rx" where
  "LazyPlus r = Seq r (LazyStar r)"

fun Lit :: "string \<Rightarrow> rx" where
  "Lit [] = Eps"
| "Lit (c # cs) = Seq (Chr (\<lambda>x. x = c)) (Lit cs)"

definition inRange :: "char \<Rightarrow> char \<Rightarrow> char \<Rightarrow> bool" where
  "inRange lo hi c \<longleftrightarrow> (of_char lo :: nat) \<le> of_char c \<and> (of_char c :: nat) \<le> of_char hi"

definition isDigit :: "char \<Rightarrow> bool" where
  "isDigit c = inRange CHR ''0'' CHR ''9'' c"

definition isLower :: "char \<Rightarrow> bool" where
  "isLower c = inRange CHR ''a'' CHR ''z'' c"

definition isUpper :: "char \<Rightarrow> bool" where
  "isUpper c = inRange CHR ''A'' CHR ''Z'' c"

text \<open>
  \<^verbatim>\<open>toLowerCase\<close> on code units below 256: the ASCII capitals and the Latin-1
  capitals (all of 0xC0 to 0xDE but the multiplication sign) move up by 32.
\<close>

definition toLowerChar :: "char \<Rightarrow> char" where
  "toLowerChar c =
     (if isUpper c \<or> (inRange (CHR 0xC0) (CHR 0xDE) c \<and> c \<noteq> CHR 0xD7)
      then char_of (of_char c + (32::nat)) else c)"

definition toLowerCase :: "string \<Rightarrow> string" where
  "toLowerCase s = map toLowerChar s"

text \<open>
  Under the \<^verbatim>\<open>i\<close> flag an ASCII letter of the pattern matches both of its cases, and
  no other code unit below 256.
\<close>

definition sameLetter :: "char \<Rightarrow> char \<Rightarrow> bool" where
  "sameLetter c x \<longleftrightarrow>
     x = c \<or> (isUpper c \<and> of_char x = of_char c + (32::nat))
           \<or> (isLower c \<and> of_char x + (32::nat) = of_char c)"

fun LitI :: "string \<Rightarrow> rx" where
  "LitI [] = Eps"
| "LitI (c # cs) = Seq (Chr (sameLetter c)) (LitI cs)"

text \<open>\<^verbatim>\<open>.\<close> matches any character but a line terminator.\<close>

definition Dot :: rx where
  "Dot = Chr (\<lambda>c. \<not> lineTerminator c)"

text \<open>
  \<^verbatim>\<open>re.test(s)\<close> for a pattern without the \<^verbatim>\<open>g\<close> flag: some position has a match.
\<close>

fun testFrom :: "rx \<Rightarrow> char option \<Rightarrow> string \<Rightarrow> bool" where
  "testFrom r p [] = (rxm r p [] \<noteq> [])"
| "testFrom r p (c # cs) = (rxm r p (c # cs) \<noteq> [] \<or> testFrom r (Some c) cs)"

definition test :: "rx \<Rightarrow> string \<Rightarrow> bool" where
  "test r s = testFrom r None s"

text \<open>
  The first match of a pattern: the text before it, the matched text and the text after
  it.
\<close>

fun execFrom :: "rx \<Rightarrow> char option \<Rightarrow> string \<Rightarrow> string \<Rightarrow> (string \<times> string \<times> string) option" where
  "execFrom r p pre [] =
     (case rxm r p [] of [] \<Rightarrow> None | ps # _ \<Rightarrow> Some (pre, [], []))"
| "execFrom r p pre (c # cs) =
     (case rxm r p (c # cs) of
        [] \<Rightarrow> execFrom r (Some c) (pre @ [c]) cs
      | ps # _ \<Rightarrow> Some (pre, take (length (c # cs) - length (snd ps)) (c # cs), snd ps))"

definition exec :: "rx \<Rightarrow> string \<Rightarrow> (string \<times> string \<times> string) option" where
  "exec r s = execFrom r None [] s"

text \<open>
  \<^verbatim>\<open>s.replace(re, f)\<close> for a pattern with the \<^verbatim>\<open>g\<close> flag, the replacement given as
  a function of the matched text.  After an empty match the search moves on by one
  character, which is copied.
\<close>

function replaceFrom :: "rx \<Rightarrow> (string \<Rightarrow> string) \<Rightarrow> char option \<Rightarrow> string \<Rightarrow> string" where
  "replaceFrom r f p s =
     (case rxm r p s of
        [] \<Rightarrow> (case s of [] \<Rightarrow> [] | c # cs \<Rightarrow> c # replaceFrom r f (Some c) cs)
      | ps # _ \<Rightarrow>
          (if length (snd ps) < length s
           then f (take (length s - length (snd ps)) s) @ replaceFrom r f (fst ps) (snd ps)
           else f [] @ (case s of [] \<Rightarrow> [] | c # cs \<Rightarrow> c # replaceFrom r f (Some c) cs)))"
  by pat_completeness auto
termination
  by (relation "measure (\<lambda>(r, f, p, s). length s)") auto

declare replaceFrom.simps [simp del]

definition replaceAll :: "rx \<Rightarrow> (string \<Rightarrow> string) \<Rightarrow> string \<Rightarrow> string" where
  "replaceAll r f s = replaceFrom r f None s"

text \<open>\<^verbatim>\<open>s.split(sep)\<close> for a non-empty separator string and \<^verbatim>\<open>parts.join(sep)\<close>.\<close>

function splitAcc :: "string \<Rightarrow> string \<Rightarrow> string \<Rightarrow> string list" where
  "splitAcc sep acc s =
     (if s = [] then [acc]
      else if sep \<noteq> [] \<and> startsWith s sep then acc # splitAcc sep [] (drop (length sep) s)
      else splitAcc sep (acc @ [hd s]) (tl s))"
  by pat_completeness auto
termination
  by (relation "measure (\<lambda>(sep, acc, s). length s)") auto

declare splitAcc.simps [simp del]

definition split :: "string \<Rightarrow> string \<Rightarrow> string list" where
  "split sep s = splitAcc sep [] s"

fun join :: "string \<Rightarrow> string list \<Rightarrow> string" where
  "join sep [] = []"
| "join sep [x] = x"
| "join sep (x # y # ys) = x @ sep @ join sep (y # ys)"

text \<open>\<^verbatim>\<open>s.includes(t)\<close>.\<close>

fun includesStr :: "string \<Rightarrow> string \<Rightarrow> bool" where
  "includesStr [] t = (t = [])"
| "includesStr (c # cs) t = (startsWith (c # cs) t \<or> includesStr cs t)"

section \<open>The content normalizer\<close>

record TextProcessingOptions =
  preserveNewlines :: bool
  preserveSpaces :: bool
  preserveMarkdownHeadings :: bool

text \<open>Character classes of the patterns in \<^verbatim>\<open>processText\<close>.\<close>

definition blankChar :: "char \<Rightarrow> bool" where
  \<comment> \<open>\<^verbatim>\<open>[\t\f\r ]\<close>\<close>
  "blankChar c \<longleftrightarrow> c = CHR 0x09 \<or> c = CHR 0x0C \<or> c = CHR 0x0D \<or> c = CHR 0x20"

definition newline :: char where
  "newline = CHR 0x0A"

definition rxNewline :: rx where
  "rxNewline = Chr (\<lambda>c. c = newline)"

definition rxSpaceClass :: rx where
  \<comment> \<open>\<^verbatim>\<open>\s\<close>\<close>
  "rxSpaceClass = Chr jsWhiteSpace"

definition rxDigits :: rx where
  \<comment> \<open>\<^verbatim>\<open>\d+\<close>\<close>
  "rxDigits = Plus (Chr isDigit)"

text \<open>
  The patterns, each with its replacement as a function of the matched text.  Where the
  source's replacement refers to groups, the groups are read off the matched text, which
  determines them.
\<close>

definition rxBlanks :: rx where
  \<comment> \<open>\<^verbatim>\<open>/[\t\f\r ]+/g\<close>\<close>
  "rxBlanks = Plus (Chr blankChar)"

definition rxHeading :: rx where
  \<comment> \<open>\<^verbatim>\<open>/^(#{1,6})([^\s#])/gm\<close>\<close>
  "rxHeading =
     (let h = Chr (\<lambda>c. c = CHR ''#'')
      in Seq Bol (Seq (Seq h (Opt (Seq h (Opt (Seq h (Opt (Seq h (Opt (Seq h (Opt h))))))))))
                      (Chr (\<lambda>c. \<not> jsWhiteSpace c \<and> c \<noteq> CHR ''#''))))"

definition headingReplacement :: "string \<Rightarrow> string" where
  \<comment> \<open>\<^verbatim>\<open>'$1 $2'\<close>: the hashes, a space, the character after them\<close>
  "headingReplacement m = butlast m @ '' '' @ [last m]"

definition rxNumbered :: rx where
  \<comment> \<open>\<^verbatim>\<open>/^(\d+)\.(\s*)/gm\<close>\<close>
  "rxNumbered = Seq Bol (Seq rxDigits (Seq (Chr (\<lambda>c. c = CHR ''.'')) (Star rxSpaceClass)))"

definition numberedReplacement :: "string \<Rightarrow> string" where
  \<comment> \<open>\<^verbatim>\<open>'$1. '\<close>\<close>
  "numberedReplacement m = takeWhile isDigit m @ ''. ''"

definition rxBullet :: rx where
  \<comment> \<open>\<^verbatim>\<open>/^([*-])\s*/gm\<close>\<close>
  "rxBullet = Seq Bol (Seq (Chr (\<lambda>c. c = CHR ''*'' \<or> c = CHR ''-'')) (Star rxSpaceClass))"

definition bulletReplacement :: "string \<Rightarrow> string" where
  \<comment> \<open>\<^verbatim>\<open>'$1 '\<close>\<close>
  "bulletReplacement m = take 1 m @ '' ''"

definition rxBlankLines :: rx where
  \<comment> \<open>\<^verbatim>\<open>/\n{3,}/g\<close>\<close>
  "rxBlankLines = Seq rxNewline (Seq rxNewline (Plus rxNewline))"

definition rxNewlines :: rx where
  \<comment> \<open>\<^verbatim>\<open>/\n+/g\<close>\<close>
  "rxNewlines = Plus rxNewline"

definition rxSentenceEnd :: rx where
  \<comment> \<open>\<^verbatim>\<open>/([.!?])(?!["'.])/g\<close>\<close>
  "rxSentenceEnd =
     Seq (Chr (\<lambda>c. c = CHR ''.'' \<or> c = CHR ''!'' \<or> c = CHR ''?''))
         (NegLook (Chr (\<lambda>c. c = CHR 0x22 \<or> c = CHR 0x27 \<or> c = CHR ''.'')))"

definition sentenceReplacement :: "string \<Rightarrow> string" where
  \<comment> \<open>\<^verbatim>\<open>'$1 '\<close>\<close>
  "sentenceReplacement m = m @ '' ''"

definition rxSpacesNotNewline :: rx where
  \<comment> \<open>\<^verbatim>\<open>/[^\S\n]+/g\<close>\<close>
  "rxSpacesNotNewline = Plus (Chr (\<lambda>c. jsWhiteSpace c \<and> c \<noteq> newline))"

definition rxSpaces :: rx where
  \<comment> \<open>\<^verbatim>\<open>/\s+/g\<close>\<close>
  "rxSpaces = Plus rxSpaceClass"

definition rxVersion :: rx where
  \<comment> \<open>\<^verbatim>\<open>/(\d+)\. (\d+)\. (\d+)/g\<close>\<close>
  "rxVersion = Seq rxDigits (Seq (Lit ''. '') (Seq rxDigits (Seq (Lit ''. '') rxDigits)))"

definition versionReplacement :: "string \<Rightarrow> string" where
  \<comment> \<open>\<^verbatim>\<open>'$1.$2.$3'\<close>: the match without its two spaces\<close>
  "versionReplacement m = filter (\<lambda>c. c \<noteq> CHR '' '') m"

definition fixTechnicalTerms :: "string \<Rightarrow> string" where
  "fixTechnicalTerms s =
     replaceAll rxVersion versionReplacement
       (replaceAll (Seq (Lit ''Vue.'') (Seq (Opt (Lit '' '')) (Lit ''js''))) (\<lambda>m. ''Vue.js'')
         (replaceAll (Seq (Lit ''React.'') (Seq (Opt (Lit '' '')) (Lit ''js''))) (\<lambda>m. ''React.js'')
           (replaceAll (Seq (Lit ''Java.'') (Seq (Opt (Lit '' '')) (Lit ''Script''))) (\<lambda>m. ''JavaScript'')
             (replaceAll (Seq (Lit ''Type.'') (Seq (Opt (Lit '' '')) (Lit ''Script''))) (\<lambda>m. ''TypeScript'')
               (replaceAll (Lit ''Node. js'') (\<lambda>m. ''Node.js'')
                 (replaceAll (Lit ''Next. js'') (\<lambda>m. ''Next.js'') s))))))"

definition processText :: "string \<Rightarrow> TextProcessingOptions \<Rightarrow> string" where
  "processText text options =
     (let processed = trim (replaceAll rxBlanks (\<lambda>m. '' '') text);
          processed =
            (if preserveMarkdownHeadings options then
               replaceAll rxBlankLines (\<lambda>m. [newline, newline])
                 (replaceAll rxBullet bulletReplacement
                   (replaceAll rxNumbered numberedReplacement
                     (replaceAll rxHeading headingReplacement processed)))
             else
               (let processed =
                      replaceAll rxBullet bulletReplacement
                        (replaceAll rxNumbered numberedReplacement processed)
                in if \<not> preserveNewlines options
                   then replaceAll rxNewlines (\<lambda>m. '' '') processed
                   else processed));
          processed =
            (if preserveNewlines options then
               trim (replaceAll rxSpacesNotNewline (\<lambda>m. '' '')
                       (replaceAll rxSentenceEnd sentenceReplacement processed))
             else
               trim (replaceAll rxSpaces (\<lambda>m. '' '')
                       (replaceAll rxSentenceEnd sentenceReplacement processed)))
      in fixTechnicalTerms processed)"

section \<open>The provider stream and the data stream\<close>

text \<open>
  \<^verbatim>\<open>fullStream\<close> is what the provider yields for one call of \<^verbatim>\<open>streamText\<close>: text
  deltas, parts of other types, and possibly a failure, at which the
  \<^verbatim>\<open>for await\<close> loop throws and the rest is never read.
\<close>

datatype ProviderEvent = TextDeltaEvent string | OtherEvent | StreamFailure

datatype error = ProviderStreamError

text \<open>What the server writes with \<^verbatim>\<open>dataStream.writeData\<close>.\<close>

datatype ServerDeltaType = CodeDeltaType | SheetDeltaType

record ServerDelta =
  deltaType :: ServerDeltaType
  deltaContent :: string
  complete :: bool

definition codeDelta :: "string \<Rightarrow> bool \<Rightarrow> ServerDelta" where
  "codeDelta c done = \<lparr>deltaType = CodeDeltaType, deltaContent = c, complete = done\<rparr>"

definition sheetDelta :: "string \<Rightarrow> bool \<Rightarrow> ServerDelta" where
  "sheetDelta c done = \<lparr>deltaType = SheetDeltaType, deltaContent = c, complete = done\<rparr>"

section \<open>The sheet decoder and handler\<close>

definition rxAny :: rx where
  \<comment> \<open>\<^verbatim>\<open>[\s\S]\<close>\<close>
  "rxAny = Chr (\<lambda>c. True)"

definition fence :: string where
  "fence = [CHR 0x60, CHR 0x60, CHR 0x60]"

definition rxCsvBlock :: rx where
  \<comment> \<open>\<^verbatim>\<open>/```(?:csv)?\n([\s\S]+?)\n```/g\<close>\<close>
  "rxCsvBlock =
     Seq (Lit fence) (Seq (Opt (Lit ''csv'')) (Seq rxNewline
       (Seq (LazyPlus rxAny) (Seq rxNewline (Lit fence)))))"

definition csvBlockBody :: "string \<Rightarrow> string" where
  \<comment> \<open>group 1 of a match: what lies between the opening line and the closing fence\<close>
  "csvBlockBody m =
     (let afterFence = drop 3 m;
          afterOpening = (if startsWith afterFence (''csv'' @ [newline]) then drop 4 afterFence
                          else drop 1 afterFence)
      in take (length afterOpening - 4) afterOpening)"

definition looksLikeCsvLine :: "string \<Rightarrow> bool" where
  "looksLikeCsvLine line \<longleftrightarrow>
     includesStr line '','' \<and> \<not> startsWith line ''#'' \<and> \<not> startsWith line ''//''
     \<and> \<not> startsWith (trim line) ''Here'' \<and> \<not> startsWith (trim line) ''This''
     \<and> \<not> startsWith (trim line) ''I'' \<and> \<not> startsWith (trim line) ''The''"

definition extractCSVContent :: "string \<Rightarrow> string" where
  "extractCSVContent raw =
     (case exec rxCsvBlock raw of
        Some (pre, firstMatch, post) \<Rightarrow> trim (replaceAll rxCsvBlock csvBlockBody firstMatch)
      | None \<Rightarrow>
          (let lines = split [newline] raw;
               csvLines = filter looksLikeCsvLine lines
           in if length csvLines > 0 then join [newline] csvLines else raw))"

text \<open>The state of the streaming loop of the sheet handler.\<close>

record SheetLoop =
  sheetDraft :: string
  sheetBuffer :: string
  headerReceived :: bool
  sheetWritten :: "ServerDelta list"

definition needsSpace :: "string \<Rightarrow> string \<Rightarrow> bool" where
  "needsSpace draftContent textDelta \<longleftrightarrow>
     (draftContent \<noteq> [] \<and>
        (let c = last draftContent
         in isLower c \<or> isUpper c \<or> isDigit c \<or> c \<in> set '',:;-_(['' \<or> c = CHR 0x7B))
     \<and> (textDelta \<noteq> [] \<and>
        (let c = hd textDelta
         in isLower c \<or> isUpper c \<or> isDigit c \<or> c \<in> set '')],'' \<or> c = CHR 0x7D))
     \<and> \<not> endsWith draftContent '' '' \<and> \<not> endsWith draftContent [newline]
     \<and> \<not> endsWith draftContent [CHR 0x09]
     \<and> \<not> startsWith textDelta '' '' \<and> \<not> startsWith textDelta [newline]
     \<and> \<not> startsWith textDelta [CHR 0x09]"

text \<open>
  \<^verbatim>\<open>buffer.lastIndexOf('\n') + 1\<close> for a buffer that contains a newline: the length of
  the buffer up to and including its last newline.
\<close>

definition uptoLastNewline :: "string \<Rightarrow> nat" where
  "uptoLastNewline buffer = length buffer - length (takeWhile (\<lambda>c. c \<noteq> newline) (rev buffer))"

definition sheetStep :: "SheetLoop \<Rightarrow> string \<Rightarrow> SheetLoop" where
  "sheetStep st textDelta =
     (let spaced = (length textDelta > 0 \<and> length (sheetDraft st) > 0 \<and> \<not> headerReceived st
                    \<and> needsSpace (sheetDraft st) textDelta);
          draftContent = (if spaced then sheetDraft st @ '' '' else sheetDraft st) @ textDelta;
          buffer = (if spaced then sheetBuffer st @ '' '' else sheetBuffer st) @ textDelta;
          header = (headerReceived st \<or> includesStr buffer [newline])
      in if length buffer \<ge> 200 \<and> includesStr buffer [newline] then
           (let cut = uptoLastNewline buffer;
                partialCSV = extractCSVContent (take cut buffer)
            in \<lparr>sheetDraft = draftContent, sheetBuffer = drop cut buffer, headerReceived = header,
                sheetWritten = sheetWritten st
                  @ (if length (trim partialCSV) > 0 then [sheetDelta partialCSV False] else [])\<rparr>)
         else \<lparr>sheetDraft = draftContent, sheetBuffer = buffer, headerReceived = header,
               sheetWritten = sheetWritten st\<rparr>)"

fun sheetLoop :: "SheetLoop \<Rightarrow> ProviderEvent list \<Rightarrow> SheetLoop \<times> error option" where
  "sheetLoop st [] = (st, None)"
| "sheetLoop st (TextDeltaEvent textDelta # events) = sheetLoop (sheetStep st textDelta) events"
| "sheetLoop st (OtherEvent # events) = sheetLoop st events"
| "sheetLoop st (StreamFailure # events) = (st, Some ProviderStreamError)"

text \<open>
  The handler proper, from the provider's stream to the deltas written and either the
  error thrown or the string returned.  \<^verbatim>\<open>onCreateDocument\<close> and
  \<^verbatim>\<open>onUpdateDocument\<close> of the sheet handler differ in the prompt they send to the
  provider and in nothing else.
\<close>

definition sheetStream :: "ProviderEvent list \<Rightarrow> ServerDelta list \<times> (error + string)" where
  "sheetStream fullStream =
     (case sheetLoop \<lparr>sheetDraft = [], sheetBuffer = [], headerReceived = False, sheetWritten = []\<rparr>
             fullStream of
        (st, Some e) \<Rightarrow> (sheetWritten st, Inl e)
      | (st, None) \<Rightarrow>
          (let rest = (if length (sheetBuffer st) > 0 then
                         (let partialCSV = extractCSVContent (sheetBuffer st)
                          in if length (trim partialCSV) > 0 then [sheetDelta partialCSV False] else [])
                       else []);
               finalCSV = extractCSVContent (sheetDraft st)
           in (sheetWritten st @ rest @ [sheetDelta finalCSV True], Inr (sheetDraft st))))"

definition sheetDocumentHandler_onCreateDocument :: "ProviderEvent list \<Rightarrow> ServerDelta list \<times> (error + string)" where
  "sheetDocumentHandler_onCreateDocument fullStream = sheetStream fullStream"

definition sheetDocumentHandler_onUpdateDocument :: "ProviderEvent list \<Rightarrow> ServerDelta list \<times> (error + string)" where
  "sheetDocumentHandler_onUpdateDocument fullStream = sheetStream fullStream"

section \<open>The code decoder and handler\<close>

datatype SupportedLanguage = LangText | Python | JavaScript | Jsx | TypeScript | Java | Cpp

definition DEFAULT_LANGUAGE :: SupportedLanguage where
  "DEFAULT_LANGUAGE = LangText"

fun languageName :: "SupportedLanguage \<Rightarrow> string" where
  "languageName LangText = ''text''"
| "languageName Python = ''python''"
| "languageName JavaScript = ''javascript''"
| "languageName Jsx = ''jsx''"
| "languageName TypeScript = ''typescript''"
| "languageName Java = ''java''"
| "languageName Cpp = ''cpp''"

text \<open>
  \<^verbatim>\<open>isValidLanguage\<close> together with the narrowing it licenses: the language a string
  names, if it is one of \<^verbatim>\<open>validLanguages\<close>.
\<close>

definition validLanguages :: "SupportedLanguage list" where
  "validLanguages = [LangText, Python, JavaScript, Jsx, TypeScript, Java, Cpp]"

definition isValidLanguage :: "string \<Rightarrow> SupportedLanguage option" where
  "isValidLanguage lang = find (\<lambda>l. languageName l = lang) validLanguages"

record ProcessedCode =
  language :: SupportedLanguage
  code :: string

definition rxLangTag :: rx where
  \<comment> \<open>\<^verbatim>\<open>[a-z]+(\-?[a-z0-9]+)*\<close>\<close>
  "rxLangTag =
     Seq (Plus (Chr isLower))
         (Star (Seq (Opt (Lit ''-'')) (Plus (Chr (\<lambda>c. isLower c \<or> isDigit c)))))"

definition rxCodeBlock :: rx where
  \<comment> \<open>\<^verbatim>\<open>/```([a-z]+(\-?[a-z0-9]+)*)\n([\s\S]+?)\n```/g\<close>\<close>
  "rxCodeBlock =
     Seq (Lit fence) (Seq rxLangTag (Seq rxNewline
       (Seq (LazyPlus rxAny) (Seq rxNewline (Lit fence)))))"

definition codeBlockLang :: "string \<Rightarrow> string" where
  \<comment> \<open>group 1 of a match of \<open>rxCodeBlock\<close>: the tag after the opening fence\<close>
  "codeBlockLang m = takeWhile (\<lambda>c. c \<noteq> newline) (drop 3 m)"

definition codeBlockBody :: "string \<Rightarrow> string" where
  \<comment> \<open>group 3 of a match of \<open>rxCodeBlock\<close>: from after the opening line to before the closing fence\<close>
  "codeBlockBody m =
     (let afterOpening = drop 1 (dropWhile (\<lambda>c. c \<noteq> newline) (drop 3 m))
      in take (length afterOpening - 4) afterOpening)"

definition rxOpeningLine :: rx where
  \<comment> \<open>\<^verbatim>\<open>/^([a-z]+(\-?[a-z0-9]+)*)\n/\<close>, matched at the start of the input\<close>
  "rxOpeningLine = Seq rxLangTag rxNewline"

text \<open>The pattern table of \<^verbatim>\<open>detectLanguage\<close>, in its order.\<close>

definition rxQuote :: rx where
  \<comment> \<open>\<^verbatim>\<open>['"]\<close>\<close>
  "rxQuote = Chr (\<lambda>c. c = CHR 0x27 \<or> c = CHR 0x22)"

definition languagePatterns :: "(rx \<times> SupportedLanguage) list" where
  "languagePatterns =
     [(Seq (Lit ''def'') (Seq (Plus rxSpaceClass) (Seq (Star Dot) (Seq (Lit '':'')
         (Seq (Star rxSpaceClass) (NegLook (Seq (Star Dot) (Lit '';''))))))), Python),
      (Alt (Seq (Lit ''import'') (Seq (Plus rxSpaceClass) (Lit ''React'')))
         (Alt (Lit ''useState'')
              (Seq (Lit ''from'') (Seq (Plus rxSpaceClass)
                 (Seq rxQuote (Seq (Lit ''react'') rxQuote))))), Jsx),
      (Alt (Seq (Lit ''function'') (Seq (Star Dot) (Seq (Lit [CHR 0x7B])
              (Seq (Star Dot) (Lit [CHR 0x7D])))))
           (Lit ''console.log''), JavaScript),
      (Alt (Seq (Lit ''interface'') (Plus rxSpaceClass))
         (Alt (Seq (Lit ''type'') (Plus rxSpaceClass))
              (Seq (Lit '':'') (Seq (Star rxSpaceClass) (Lit ''string'')))), TypeScript),
      (Seq (Alt (Lit ''public'') (Lit ''private'')) (Seq (Plus rxSpaceClass) (Lit ''class'')), Java),
      (Lit ''#include'', Cpp)]"

definition detectLanguage :: "string \<Rightarrow> SupportedLanguage" where
  "detectLanguage input =
     (if input = [] then DEFAULT_LANGUAGE
      else (case find (\<lambda>pl. test (fst pl) input) languagePatterns of
              Some pl \<Rightarrow> snd pl
            | None \<Rightarrow> LangText))"

text \<open>The cleaners of \<^verbatim>\<open>cleanCode\<close>, in their order; each replaces by the empty string.\<close>

definition cleaners :: "rx list" where
  "cleaners =
     [Seq Bol (Seq (Plus (Lit ''#'')) (Seq (Plus rxSpaceClass) (Seq (Star Dot) Eol))),
      Alt (Lit ''**'') (Lit ''__''),
      Alt (Lit ''*'') (Lit ''_''),
      Seq (Lit fence) (Seq (Star (Chr isLower)) (Opt rxNewline)),
      Seq Bol (Seq (Star (Chr (\<lambda>c. c = CHR ''-'' \<or> jsWhiteSpace c))) Eol)]"

definition cleanCode :: "string \<Rightarrow> string" where
  "cleanCode input = trim (foldl (\<lambda>cleaned pattern. replaceAll pattern (\<lambda>m. []) cleaned) input cleaners)"

text \<open>
  \<^verbatim>\<open>processCodeOutput\<close>.  The mutable \<^verbatim>\<open>state\<close> of the source holds the language and
  the code found so far; \<open>codeAfterFence\<close> below is its \<^verbatim>\<open>code\<close> field when the
  fall-back to pattern detection is reached.
\<close>

definition codeAfterFence :: "string \<Rightarrow> SupportedLanguage option \<times> string" where
  "codeAfterFence raw =
     (if includesStr raw fence then
        (let parts = split fence raw
         in if length parts \<ge> 2 then
              (let part1 = parts ! 1 in
               case (case rxm rxOpeningLine None part1 of
                       [] \<Rightarrow> None
                     | ps # _ \<Rightarrow>
                         (case isValidLanguage (toLowerCase
                                 (takeWhile (\<lambda>c. c \<noteq> newline) part1)) of
                            None \<Rightarrow> None
                          | Some l \<Rightarrow> Some (l, trim (snd ps)))) of
                 Some (l, body) \<Rightarrow> (Some l, body)
               | None \<Rightarrow> (None, trim part1))
            else (None, raw))
      else (None, raw))"

definition processCodeOutput :: "string \<Rightarrow> ProcessedCode" where
  "processCodeOutput raw =
     (if raw = [] then \<lparr>language = DEFAULT_LANGUAGE, code = []\<rparr>
      else if trim raw = [] then \<lparr>language = DEFAULT_LANGUAGE, code = []\<rparr>
      else
        (let lines = split [newline] (trim raw);
             firstLineLanguage =
               (if length lines > 1 then isValidLanguage (toLowerCase (trim (hd lines))) else None)
         in case firstLineLanguage of
              Some l \<Rightarrow> \<lparr>language = l, code = trim (join [newline] (tl lines))\<rparr>
            | None \<Rightarrow>
                (case (case exec rxCodeBlock raw of
                         None \<Rightarrow> None
                       | Some (pre, m, post) \<Rightarrow>
                           (case isValidLanguage (toLowerCase (codeBlockLang m)) of
                              None \<Rightarrow> None
                            | Some l \<Rightarrow> Some \<lparr>language = l, code = trim (codeBlockBody m)\<rparr>)) of
                   Some r \<Rightarrow> r
                 | None \<Rightarrow>
                     (case codeAfterFence raw of
                        (Some l, body) \<Rightarrow> \<lparr>language = l, code = body\<rparr>
                      | (None, stateCode) \<Rightarrow>
                          \<lparr>language = detectLanguage stateCode, code = cleanCode stateCode\<rparr>))))"

text \<open>
  The streaming loop of \<^verbatim>\<open>codeDocumentHandler.onCreateDocument\<close>.  The flags
  \<^verbatim>\<open>significantContentReceived\<close> and \<^verbatim>\<open>completeCodeSent\<close> are left out: the first is
  never read, the second is false until after the last write.
\<close>

record CodeLoop =
  codeDraft :: string
  codeBuffer :: string
  languageDetected :: bool
  codeWritten :: "ServerDelta list"

definition codeCreateStep :: "CodeLoop \<Rightarrow> string \<Rightarrow> CodeLoop" where
  "codeCreateStep st textDelta =
     (let st1 = st\<lparr>codeDraft := codeDraft st @ textDelta, codeBuffer := codeBuffer st @ textDelta\<rparr>;
          st2 =
            (if \<not> languageDetected st1 \<and> length (codeDraft st1) > 20 then
               (let processed = processCodeOutput (codeDraft st1)
                in if language processed \<noteq> LangText then
                     st1\<lparr>languageDetected := True,
                         codeWritten := codeWritten st1
                           @ [codeDelta (''language:'' @ languageName (language processed) @ [newline]) False],
                         codeBuffer := [],
                         codeDraft := code processed\<rparr>
                   else st1)
             else st1)
      in if length (codeBuffer st2) \<ge> 150 \<and> languageDetected st2 then
           st2\<lparr>codeWritten := codeWritten st2 @ [codeDelta (codeBuffer st2) False], codeBuffer := []\<rparr>
         else st2)"

fun codeCreateLoop :: "CodeLoop \<Rightarrow> ProviderEvent list \<Rightarrow> CodeLoop \<times> error option" where
  "codeCreateLoop st [] = (st, None)"
| "codeCreateLoop st (TextDeltaEvent textDelta # events) =
     (if textDelta \<noteq> [] then codeCreateLoop (codeCreateStep st textDelta) events
      else codeCreateLoop st events)"
| "codeCreateLoop st (OtherEvent # events) = codeCreateLoop st events"
| "codeCreateLoop st (StreamFailure # events) = (st, Some ProviderStreamError)"

definition codeDocumentHandler_onCreateDocument :: "ProviderEvent list \<Rightarrow> ServerDelta list \<times> (error + string)" where
  "codeDocumentHandler_onCreateDocument fullStream =
     (case codeCreateLoop \<lparr>codeDraft = [], codeBuffer = [], languageDetected = False, codeWritten = []\<rparr>
             fullStream of
        (st, Some e) \<Rightarrow> (codeWritten st, Inl e)
      | (st, None) \<Rightarrow>
          (let rest = (if length (codeBuffer st) > 0 \<and> languageDetected st
                       then [codeDelta (codeBuffer st) False] else []);
               processedFinal = processCodeOutput (codeDraft st);
               cleanedCode = code processedFinal;
               final = (if \<not> languageDetected st
                        then codeDelta (''language:'' @ languageName (language processedFinal)
                                        @ [newline] @ cleanedCode) True
                        else codeDelta cleanedCode True)
           in (codeWritten st @ rest @ [final], Inr cleanedCode)))"

text \<open>
  The loop of \<^verbatim>\<open>codeDocumentHandler.onUpdateDocument\<close>: the language of the existing
  document is sent with the first non-empty fragment.
\<close>

definition codeUpdateStep :: "SupportedLanguage \<Rightarrow> CodeLoop \<Rightarrow> string \<Rightarrow> CodeLoop" where
  "codeUpdateStep detectedLanguage st textDelta =
     (let st1 = st\<lparr>codeDraft := codeDraft st @ textDelta, codeBuffer := codeBuffer st @ textDelta\<rparr>;
          st2 =
            (if \<not> languageDetected st1 \<and> length (codeDraft st1) > 0 then
               st1\<lparr>languageDetected := True,
                   codeWritten := codeWritten st1
                     @ [codeDelta (''language:'' @ languageName detectedLanguage @ [newline]) False],
                   codeBuffer := []\<rparr>
             else st1)
      in if length (codeBuffer st2) \<ge> 150 \<and> languageDetected st2 then
           st2\<lparr>codeWritten := codeWritten st2 @ [codeDelta (codeBuffer st2) False], codeBuffer := []\<rparr>
         else st2)"

fun codeUpdateLoop :: "SupportedLanguage \<Rightarrow> CodeLoop \<Rightarrow> ProviderEvent list \<Rightarrow> CodeLoop \<times> error option" where
  "codeUpdateLoop l st [] = (st, None)"
| "codeUpdateLoop l st (TextDeltaEvent textDelta # events) =
     (if textDelta \<noteq> [] then codeUpdateLoop l (codeUpdateStep l st textDelta) events
      else codeUpdateLoop l st events)"
| "codeUpdateLoop l st (OtherEvent # events) = codeUpdateLoop l st events"
| "codeUpdateLoop l st (StreamFailure # events) = (st, Some ProviderStreamError)"

definition codeDocumentHandler_onUpdateDocument :: "string \<Rightarrow> ProviderEvent list \<Rightarrow> ServerDelta list \<times> (error + string)" where
  "codeDocumentHandler_onUpdateDocument existingContent fullStream =
     (let detectedLanguage = language (processCodeOutput existingContent)
      in case codeUpdateLoop detectedLanguage
                \<lparr>codeDraft = [], codeBuffer = [], languageDetected = False, codeWritten = []\<rparr>
                fullStream of
           (st, Some e) \<Rightarrow> (codeWritten st, Inl e)
         | (st, None) \<Rightarrow>
             (let rest = (if length (codeBuffer st) > 0 \<and> languageDetected st
                          then [codeDelta (codeBuffer st) False] else []);
                  cleanedCode = code (processCodeOutput (codeDraft st))
              in (codeWritten st @ rest @ [codeDelta cleanedCode True], Inr cleanedCode)))"

section \<open>createDocumentHandler\<close>

datatype ArtifactKind = KindText | KindCode | KindImage | KindSheet

record Session =
  sessionUserId :: "string option"

record Document =
  docId :: string
  docTitle :: string
  docKind :: ArtifactKind
  docContent :: "string option"
  docUserId :: string

record SaveDocumentProps =
  saveId :: string
  saveTitle :: string
  saveKind :: ArtifactKind
  saveContent :: string
  saveUserId :: string

text \<open>
  The state the handler works on: the module-level map \<^verbatim>\<open>updateLocks\<close>, the rows of
  the document table, and what has been written to the data stream.
\<close>

record ServerState =
  updateLocks :: "string \<rightharpoonup> bool"
  savedDocuments :: "SaveDocumentProps list"
  dataStream :: "ServerDelta list"

text \<open>
  Modelled from the spec: \<^verbatim>\<open>saveDocument\<close> and \<^verbatim>\<open>getDocumentById\<close> of the persistence
  layer (\<^verbatim>\<open>lib/db/queries\<close>), which is not among the sources.  The specification gives
  their interface: \<^verbatim>\<open>saveDocument({id, title, content, kind, userId})\<close> stores a
  snapshot, of which a document may have several over time, and
  \<^verbatim>\<open>getDocumentById({id})\<close> returns the current one or null.
\<close>

definition saveDocument :: "SaveDocumentProps \<Rightarrow> ServerState \<Rightarrow> ServerState" where
  "saveDocument props st = st\<lparr>savedDocuments := savedDocuments st @ [props]\<rparr>"

definition getDocumentById :: "ServerState \<Rightarrow> string \<Rightarrow> SaveDocumentProps option" where
  "getDocumentById st ident =
     (case filter (\<lambda>d. saveId d = ident) (savedDocuments st) of
        [] \<Rightarrow> None
      | d # ds \<Rightarrow> Some (last (d # ds)))"

text \<open>\<^verbatim>\<open>args.session?.user?.id\<close> as a condition: present and not the empty string.\<close>

definition sessionUser :: "Session \<Rightarrow> string option" where
  "sessionUser session =
     (case sessionUserId session of None \<Rightarrow> None | Some u \<Rightarrow> if u = [] then None else Some u)"

type_synonym ConfigResult = "ServerDelta list \<times> (error + string)"

text \<open>
  \<^verbatim>\<open>onCreateDocument\<close> of the handler that \<^verbatim>\<open>createDocumentHandler(config)\<close> returns.
  The configured callback is given as the function from the provider's stream to its
  writes and its outcome.
\<close>

definition createDocumentHandler_onCreateDocument ::
  "ArtifactKind \<Rightarrow> (ProviderEvent list \<Rightarrow> ConfigResult) \<Rightarrow> string \<Rightarrow> string \<Rightarrow> Session
   \<Rightarrow> ProviderEvent list \<Rightarrow> ServerState \<Rightarrow> ServerState \<times> (error + unit)" where
  "createDocumentHandler_onCreateDocument configKind configOnCreate ident ttl session fullStream st =
     (let (writes, outcome) = configOnCreate fullStream;
          st1 = st\<lparr>dataStream := dataStream st @ writes\<rparr>
      in case outcome of
           Inl e \<Rightarrow> (st1, Inl e)
         | Inr draftContent \<Rightarrow>
             (case sessionUser session of
                Some u \<Rightarrow>
                  (saveDocument \<lparr>saveId = ident, saveTitle = ttl, saveKind = configKind,
                                 saveContent = draftContent, saveUserId = u\<rparr> st1, Inr ())
              | None \<Rightarrow> (st1, Inr ())))"

text \<open>
  \<^verbatim>\<open>onUpdateDocument\<close>: the early return when the lock is held, the \<^verbatim>\<open>try\<close> block, and
  the \<^verbatim>\<open>finally\<close> that deletes the lock on both ways out.
\<close>

definition createDocumentHandler_onUpdateDocument ::
  "ArtifactKind \<Rightarrow> (Document \<Rightarrow> ProviderEvent list \<Rightarrow> ConfigResult) \<Rightarrow> Document \<Rightarrow> Session
   \<Rightarrow> ProviderEvent list \<Rightarrow> ServerState \<Rightarrow> ServerState \<times> (error + unit)" where
  "createDocumentHandler_onUpdateDocument configKind configOnUpdate doc session fullStream st =
     (if updateLocks st (docId doc) = Some True then (st, Inr ())
      else
        (let st1 = st\<lparr>updateLocks := (updateLocks st)(docId doc \<mapsto> True)\<rparr>;
             (writes, outcome) = configOnUpdate doc fullStream;
             st2 = st1\<lparr>dataStream := dataStream st1 @ writes\<rparr>;
             (st3, result) =
               (case outcome of
                  Inl e \<Rightarrow> (st2, Inl e)
                | Inr draftContent \<Rightarrow>
                    (case sessionUser session of
                       Some u \<Rightarrow>
                         (saveDocument \<lparr>saveId = docId doc, saveTitle = docTitle doc,
                                        saveKind = configKind, saveContent = draftContent,
                                        saveUserId = u\<rparr> st2, Inr ())
                     | None \<Rightarrow> (st2, Inr ())))
         in (st3\<lparr>updateLocks := (updateLocks st3)(docId doc := None)\<rparr>, result)))"

text \<open>The two handlers of this file as configured.\<close>

definition codeDocumentHandler_update :: "Document \<Rightarrow> ProviderEvent list \<Rightarrow> ConfigResult" where
  "codeDocumentHandler_update doc fullStream =
     codeDocumentHandler_onUpdateDocument (case docContent doc of None \<Rightarrow> [] | Some c \<Rightarrow> c) fullStream"

definition sheetDocumentHandler_update :: "Document \<Rightarrow> ProviderEvent list \<Rightarrow> ConfigResult" where
  "sheetDocumentHandler_update doc fullStream = sheetDocumentHandler_onUpdateDocument fullStream"

text \<open>The final delta of a run: the last write, if it carries the \<^verbatim>\<open>complete\<close> flag.\<close>

definition finalDelta :: "ServerDelta list \<Rightarrow> string option" where
  "finalDelta writes =
     (if writes \<noteq> [] \<and> complete (last writes) then Some (deltaContent (last writes)) else None)"

section \<open>Sample runs of the handlers\<close>

definition emptyServerState :: ServerState where
  "emptyServerState = \<lparr>updateLocks = Map.empty, savedDocuments = [], dataStream = []\<rparr>"

definition sampleSheetDocument :: Document where
  "sampleSheetDocument =
     \<lparr>docId = ''doc-1'', docTitle = ''Budget'', docKind = KindSheet,
      docContent = Some (''a,b'' @ [newline] @ ''0,0''), docUserId = ''user-1''\<rparr>"

text \<open>A provider stream that fails after one fragment.\<close>

definition failingSheetStream :: "ProviderEvent list" where
  "failingSheetStream = [TextDeltaEvent (''a,b'' @ [newline] @ ''1,2'' @ [newline]), StreamFailure]"

text \<open>A provider stream that wraps its CSV in a fenced block, in two fragments.\<close>

definition fencedSheetStream :: "ProviderEvent list" where
  "fencedSheetStream =
     [TextDeltaEvent (fence @ ''csv'' @ [newline] @ ''a,b''),
      TextDeltaEvent ([newline] @ ''1,2'' @ [newline] @ fence)]"

section \<open>The conversation-document message merger\<close>

datatype Role = System | User | Assistant | Data | Tool

datatype ToolState = PartialCall | Call | Result

record ToolInvocation =
  toolState :: ToolState
  toolCallId :: string
  toolName :: string
  toolArgs :: string
  toolResult :: "string option"

record Message =
  messageId :: string
  role :: Role
  messageContent :: string
  reasoning :: "string option"
  toolInvocations :: "ToolInvocation list option"

text \<open>\<^verbatim>\<open>message.toolInvocations || []\<close>.\<close>

definition invocationsOf :: "Message \<Rightarrow> ToolInvocation list" where
  "invocationsOf m = (case toolInvocations m of None \<Rightarrow> [] | Some ts \<Rightarrow> ts)"

definition isDocumentToolName :: "string \<Rightarrow> bool" where
  "isDocumentToolName n \<longleftrightarrow> n \<in> set [''createDocument'', ''updateDocument'']"

subsection \<open>sanitizeUIMessages\<close>

definition documentPatterns :: "rx list" where
  "documentPatterns =
     [Seq (LitI ''I'') (Seq (Alt (LitI [CHR 0x27, CHR ''v'', CHR ''e'']) (LitI '' have''))
        (Seq (LitI '' created '') (Seq (Alt (LitI ''a'') (LitI ''an''))
          (Seq (LitI '' '') (Seq (Star Dot) (LitI '' document'')))))),
      Seq (LitI ''Would you like me to '') (Alt (LitI ''help develop'') (LitI ''update'')),
      Seq (LitI ''Here'') (Seq (Alt (LitI [CHR 0x27, CHR ''s'']) (LitI '' is''))
        (Seq (LitI '' '') (Alt (LitI (''what I'' @ [CHR 0x27] @ ''ll cover''))
           (Alt (LitI ''an outline'') (LitI ''a draft'')))))]"

definition hasDocumentContent :: "Message \<Rightarrow> Message \<Rightarrow> bool" where
  "hasDocumentContent message nextMessage \<longleftrightarrow>
     list_ex (\<lambda>pattern. test pattern (messageContent message)
                        \<or> test pattern (messageContent nextMessage)) documentPatterns"

definition hasDocumentTool :: "Message \<Rightarrow> Message \<Rightarrow> bool" where
  "hasDocumentTool message nextMessage \<longleftrightarrow>
     list_ex (\<lambda>inv. isDocumentToolName (toolName inv)) (invocationsOf message)
     \<or> list_ex (\<lambda>inv. isDocumentToolName (toolName inv)) (invocationsOf nextMessage)"

definition mergedUIMessage :: "Message \<Rightarrow> Message \<Rightarrow> Message" where
  "mergedUIMessage message nextMessage =
     (let combinedContent = messageContent message;
          combinedContent =
            (if messageContent nextMessage \<noteq> [] \<and> length (trim (messageContent nextMessage)) > 0
             then (if length combinedContent > 0 \<and> \<not> endsWith combinedContent [newline, newline]
                   then combinedContent @ [newline, newline] else combinedContent)
                  @ trim (messageContent nextMessage)
             else combinedContent)
      in message\<lparr>messageContent := combinedContent,
                 toolInvocations := Some (invocationsOf message @ invocationsOf nextMessage)\<rparr>)"

text \<open>
  The \<^verbatim>\<open>for\<close> loop with its \<^verbatim>\<open>skipNext\<close> flag: a merged pair is consumed whole, any
  other message is pushed and the loop goes on with the next one.
\<close>

fun sanitizeUIMessages :: "Message list \<Rightarrow> Message list" where
  "sanitizeUIMessages [] = []"
| "sanitizeUIMessages [message] = [message]"
| "sanitizeUIMessages (message # nextMessage # rest) =
     (if role message \<noteq> Assistant \<or> role nextMessage \<noteq> Assistant
      then message # sanitizeUIMessages (nextMessage # rest)
      else if hasDocumentContent message nextMessage \<or> hasDocumentTool message nextMessage
      then mergedUIMessage message nextMessage # sanitizeUIMessages rest
      else message # sanitizeUIMessages (nextMessage # rest))"

subsection \<open>The second pass of convertToUIMessages\<close>

definition hasDocumentTools :: "Message \<Rightarrow> bool" where
  "hasDocumentTools message \<longleftrightarrow>
     list_ex (\<lambda>t. isDocumentToolName (toolName t)) (invocationsOf message)"

definition documentIntroPattern :: rx where
  "documentIntroPattern =
     LitI ''Let me create a document for you with a structured essay on this topic.''"

definition combineContent :: "string \<Rightarrow> string \<Rightarrow> string" where
  "combineContent content1 content2 =
     (if content1 = [] then content2
      else if content2 = [] then content1
      else
        (let normalizedContent1 = replaceAll rxBlankLines (\<lambda>m. [newline, newline]) (trim content1);
             normalizedContent2 = replaceAll rxBlankLines (\<lambda>m. [newline, newline]) (trim content2)
         in if test documentIntroPattern normalizedContent1
               \<and> startsWith (trim normalizedContent2) (''I'' @ [CHR 0x27] @ ''ve created'')
            then normalizedContent1 @ '' '' @ normalizedContent2
            else normalizedContent1
                 @ (if endsWith normalizedContent1 [newline, newline] then [] else [newline, newline])
                 @ normalizedContent2))"

definition mergedMessage :: "Message \<Rightarrow> Message \<Rightarrow> Message" where
  "mergedMessage current next =
     current\<lparr>messageContent := combineContent (messageContent current) (messageContent next),
             toolInvocations := Some (invocationsOf current @ invocationsOf next)\<rparr>"

text \<open>The \<^verbatim>\<open>while (i < processedMessages.length)\<close> loop, on the messages from index \<open>i\<close> on.\<close>

fun mergeDocumentMessages :: "Message list \<Rightarrow> Message list" where
  "mergeDocumentMessages [] = []"
| "mergeDocumentMessages [current] = [current]"
| "mergeDocumentMessages (current # next # rest) =
     (if role current = Assistant then
        (if role next = Assistant \<and> (hasDocumentTools current \<or> hasDocumentTools next)
         then mergedMessage current next # mergeDocumentMessages rest
         else current # mergeDocumentMessages (next # rest))
      else current # mergeDocumentMessages (next # rest))"

subsection \<open>Shapes of message lists\<close>

text \<open>No three consecutive messages are all from the assistant.\<close>

fun noThreeAssistants :: "Message list \<Rightarrow> bool" where
  "noThreeAssistants (a # b # c # rest) =
     (\<not> (role a = Assistant \<and> role b = Assistant \<and> role c = Assistant)
      \<and> noThreeAssistants (b # c # rest))"
| "noThreeAssistants _ = True"

text \<open>The assistant's turn of the specification's scenario, split in two.\<close>

definition leadIn :: Message where
  "leadIn =
     \<lparr>messageId = ''m1'', role = Assistant,
      messageContent = ''Let me create a document for you with a structured essay on this topic.'',
      reasoning = None, toolInvocations = Some []\<rparr>"

definition created :: Message where
  "created =
     \<lparr>messageId = ''m2'', role = Assistant,
      messageContent = ''I'' @ [CHR 0x27] @ ''ve created the essay.'',
      reasoning = None,
      toolInvocations = Some [\<lparr>toolState = Result, toolCallId = ''call-1'',
        toolName = ''createDocument'', toolArgs = [], toolResult = Some []\<rparr>]\<rparr>"

subsection \<open>The common shape of the two merge loops\<close>

text \<open>
  Both loops walk the list once, replace a pair of adjacent assistant messages that
  satisfies their condition by its merge, and step over any other message.
\<close>

fun mergePairs :: "(Message \<Rightarrow> Message \<Rightarrow> bool) \<Rightarrow> (Message \<Rightarrow> Message \<Rightarrow> Message)
    \<Rightarrow> Message list \<Rightarrow> Message list" where
  "mergePairs c g [] = []"
| "mergePairs c g [m] = [m]"
| "mergePairs c g (m # n # rest) =
     (if role m = Assistant \<and> role n = Assistant \<and> c m n
      then g m n # mergePairs c g rest
      else m # mergePairs c g (n # rest))"

text \<open>No adjacent pair of assistant messages satisfies the condition.\<close>

fun stablePairs :: "(Message \<Rightarrow> Message \<Rightarrow> bool) \<Rightarrow> Message list \<Rightarrow> bool" where
  "stablePairs c (a # b # rest) =
     (\<not> (role a = Assistant \<and> role b = Assistant \<and> c a b) \<and> stablePairs c (b # rest))"
| "stablePairs c _ = True"

text \<open>Three short assistant messages in a row, the middle one with the tool call.\<close>

definition shortLeadIn :: Message where
  "shortLeadIn =
     \<lparr>messageId = ''s1'', role = Assistant, messageContent = ''Sure.'',
      reasoning = None, toolInvocations = None\<rparr>"

definition shortCreated :: Message where
  "shortCreated =
     \<lparr>messageId = ''s2'', role = Assistant, messageContent = ''Done.'',
      reasoning = None,
      toolInvocations = Some [\<lparr>toolState = Result, toolCallId = ''call-2'',
        toolName = ''createDocument'', toolArgs = [], toolResult = Some []\<rparr>]\<rparr>"

definition shortFollowUp :: Message where
  "shortFollowUp =
     \<lparr>messageId = ''s3'', role = Assistant, messageContent = ''More?'',
      reasoning = None, toolInvocations = None\<rparr>"

section \<open>Properties of the stream reducers\<close>

lemma prefix_applyDelta: "\<not> isClear d \<Longrightarrow> prefix (content a) (content (applyDelta d a))"
  by (cases d) simp_all

lemma prefix_textArtifact: "prefix (content a) (content (textArtifact_onStreamPart d a))"
  by (cases d) simp_all

lemma prefix_textArtifact_skipBlank:
  "prefix (content a) (content (textArtifact_onStreamPart_skipBlank d a))"
  by (cases d) (simp_all add: Let_def)

lemma prefix_processDelta:
  assumes "h \<in> textHandlers" "\<not> isClear d"
  shows "prefix (content a) (content (processDelta h d a))"
proof -
  have "prefix (content a) (content (case h of None \<Rightarrow> a | Some f \<Rightarrow> f d a))"
    using assms(1) prefix_textArtifact prefix_textArtifact_skipBlank
    unfolding textHandlers_def by auto
  moreover have "prefix (content b) (content (applyDelta d b))" for b
    using assms(2) by (rule prefix_applyDelta)
  ultimately show ?thesis
    unfolding processDelta_def using prefix_order.order_trans by blast
qed

lemma prefix_flushReducer: "prefix (content a) (content (flushReducer b a))"
  by (simp add: flushReducer_def Let_def split: prod.splits)

lemma prefix_flushTextBuffer:
  assumes "h \<in> textHandlers"
  shows "prefix (content a) (content (fst (flushTextBuffer h (a, b))))"
proof (cases "length b > 0")
  case False
  then show ?thesis by (simp add: flushTextBuffer_def)
next
  case True
  have "prefix (content a) (content (case h of None \<Rightarrow> a | Some f \<Rightarrow> f (TextDelta b) a))"
    using assms prefix_textArtifact prefix_textArtifact_skipBlank
    unfolding textHandlers_def by auto
  then show ?thesis
    using True prefix_flushReducer prefix_order.order_trans
    by (fastforce simp: flushTextBuffer_def)
qed

lemma processDeltas_snoc: "processDeltas h (ds @ [d]) a = processDelta h d (processDeltas h ds a)"
  by (simp add: processDeltas_def)

lemma flushAll_snoc: "flushAll h (bs @ [b]) a = fst (flushTextBuffer h (flushAll h bs a, b))"
  by (simp add: flushAll_def)

text \<open>
  Claim C3.  Append-only streaming.  Each further stream event other than \<^verbatim>\<open>clear\<close>, a
  \<^verbatim>\<open>text-delta\<close> in particular, leaves the content so far as a prefix of the new
  content, so its length never decreases; the same holds for each further flush of the
  text buffer.
\<close>

theorem append_only_streaming:
  assumes "h \<in> textHandlers" and "\<not> isClear d"
  shows "prefix (content (processDeltas h ds a)) (content (processDeltas h (ds @ [d]) a))
       \<and> length (content (processDeltas h ds a)) \<le> length (content (processDeltas h (ds @ [d]) a))
       \<and> prefix (content (flushAll h bs a)) (content (flushAll h (bs @ [b]) a))
       \<and> length (content (flushAll h bs a)) \<le> length (content (flushAll h (bs @ [b]) a))"
proof -
  have p: "prefix (content (processDeltas h ds a)) (content (processDeltas h (ds @ [d]) a))"
    using prefix_processDelta [OF assms] by (simp add: processDeltas_snoc)
  have q: "prefix (content (flushAll h bs a)) (content (flushAll h (bs @ [b]) a))"
    using prefix_flushTextBuffer [OF assms(1)] by (simp add: flushAll_snoc)
  from p q show ?thesis by (simp add: prefix_length_le)
qed

theorem append_only_streaming_witness:
  "length (content (processDeltas None [TextDelta ''The cat sat''] initialArtifactData))
     \<le> length (content (processDeltas None ([TextDelta ''The cat sat''] @ [TextDelta ''cat sat on the mat''])
          initialArtifactData))
   \<and> content (processDeltas None ([TextDelta ''The cat sat''] @ [TextDelta ''cat sat on the mat''])
        initialArtifactData)
       = ''The cat sat on the mat''"
proof -
  have h: "None \<in> textHandlers" by (simp add: textHandlers_def)
  have d: "\<not> isClear (TextDelta ''cat sat on the mat'')" by simp
  have c: "contentToAdd ''The cat sat'' ''cat sat on the mat'' = '' on the mat''" by code_simp
  have v: "content (processDeltas None ([TextDelta ''The cat sat''] @ [TextDelta ''cat sat on the mat''])
        initialArtifactData) = ''The cat sat on the mat''"
    by (simp add: processDeltas_def processDelta_def initialArtifactData_def contentToAdd_def [of "[]"] c)
  from append_only_streaming [OF h d, of "[TextDelta ''The cat sat'']" initialArtifactData] v
  show ?thesis by blast
qed

lemma endsWith_sliceFromEnd:
  assumes "0 < j" "j \<le> w" "j \<le> length d"
  shows "endsWith (sliceFromEnd w ex) (take j d) \<longleftrightarrow> spec_overlap ex d j"
proof -
  have w: "w \<noteq> 0" using assms by simp
  have len: "length (sliceFromEnd w ex) = min w (length ex)"
    using w by (simp add: sliceFromEnd_def)
  show ?thesis
  proof (cases "j \<le> length ex")
    case False
    then show ?thesis
      using assms len by (simp add: endsWith_def spec_overlap_def)
  next
    case True
    then have "length ex - w + (min w (length ex) - j) = length ex - j"
      using assms by (simp add: min_def)
    then show ?thesis
      using True assms w len
      by (simp add: endsWith_def spec_overlap_def sliceFromEnd_def min_def)
  qed
qed

lemma dedupLoop_longest:
  "\<exists>k\<le>i. dedupLoop e d i = drop k d \<and> (k = 0 \<or> endsWith e (take k d))
        \<and> (\<forall>j. k < j \<and> j \<le> i \<longrightarrow> \<not> endsWith e (take j d))"
proof (induction i)
  case 0
  then show ?case by simp
next
  case (Suc i)
  show ?case
  proof (cases "endsWith e (take (Suc i) d)")
    case True
    then show ?thesis by (intro exI [of _ "Suc i"]) auto
  next
    case False
    from Suc obtain k where k: "k \<le> i" "dedupLoop e d i = drop k d"
      "k = 0 \<or> endsWith e (take k d)" "\<forall>j. k < j \<and> j \<le> i \<longrightarrow> \<not> endsWith e (take j d)"
      by blast
    have "\<forall>j. k < j \<and> j \<le> Suc i \<longrightarrow> \<not> endsWith e (take j d)"
      using k(4) False by (metis le_Suc_eq)
    with k False show ?thesis by (intro exI [of _ k]) auto
  qed
qed

lemma spec_overlap_0: "spec_overlap ex d 0"
  by (simp add: spec_overlap_def)

lemma contentToAdd_longest:
  "\<exists>k. contentToAdd ex d = drop k d \<and> k \<le> min (length d) 50 \<and> spec_overlap ex d k
       \<and> (\<forall>j. k < j \<and> j \<le> min (length d) 50 \<longrightarrow> \<not> spec_overlap ex d j)"
proof (cases "ex = []")
  case True
  then show ?thesis
    by (intro exI [of _ 0]) (auto simp: contentToAdd_def spec_overlap_def)
next
  case False
  define w where "w = min (length d) 50"
  define e where "e = sliceFromEnd w ex"
  have c: "contentToAdd ex d = dedupLoop e d w"
    using False by (simp add: contentToAdd_def Let_def w_def e_def)
  from dedupLoop_longest [of w e d] obtain k where k: "k \<le> w" "dedupLoop e d w = drop k d"
      "k = 0 \<or> endsWith e (take k d)" "\<forall>j. k < j \<and> j \<le> w \<longrightarrow> \<not> endsWith e (take j d)"
    by blast
  have wd: "w \<le> length d" by (simp add: w_def)
  have 1: "spec_overlap ex d k"
    using k(1,3) wd endsWith_sliceFromEnd [of k w d ex] spec_overlap_0 e_def by (cases "k = 0") auto
  have 2: "\<not> spec_overlap ex d j" if "k < j" "j \<le> w" for j
    using that k(4) wd endsWith_sliceFromEnd [of j w d ex] e_def by auto
  show ?thesis
    using c k(1,2) 1 2 unfolding w_def [symmetric] by (intro exI [of _ k]) auto
qed

lemma overlapLoop_longest:
  "\<exists>k\<le>n. overlapLoop e d n = (drop k d, k \<noteq> 0) \<and> (k = 0 \<or> 3 \<le> k)
        \<and> (k \<noteq> 0 \<longrightarrow> length e \<ge> k \<and> length d \<ge> k \<and> sliceFromEnd k e = take k d)
        \<and> (\<forall>j. k < j \<and> 3 \<le> j \<and> j \<le> n \<longrightarrow>
              \<not> (length e \<ge> j \<and> length d \<ge> j \<and> sliceFromEnd j e = take j d))"
proof (induction n)
  case 0
  then show ?case by simp
next
  case (Suc n)
  let ?hit = "\<lambda>j. length e \<ge> j \<and> length d \<ge> j \<and> sliceFromEnd j e = take j d"
  show ?case
  proof (cases "Suc n > 2 \<and> ?hit (Suc n)")
    case True
    then show ?thesis by (intro exI [of _ "Suc n"]) auto
  next
    case False
    from Suc obtain k where k: "k \<le> n" "overlapLoop e d n = (drop k d, k \<noteq> 0)" "k = 0 \<or> 3 \<le> k"
      "k \<noteq> 0 \<longrightarrow> ?hit k" "\<forall>j. k < j \<and> 3 \<le> j \<and> j \<le> n \<longrightarrow> \<not> ?hit j"
      by blast
    show ?thesis
    proof (cases "Suc n > 2")
      case True
      with False have nh: "\<not> ?hit (Suc n)" by blast
      have "\<forall>j. k < j \<and> 3 \<le> j \<and> j \<le> Suc n \<longrightarrow> \<not> ?hit j"
        using k(5) nh by (metis le_Suc_eq)
      with k True nh show ?thesis by (intro exI [of _ k]) auto
    next
      case F2: False
      then have "k = 0" using k(1,3) by auto
      moreover have "overlapLoop e d (Suc n) = (d, False)" using F2 by simp
      ultimately show ?thesis using F2 by (intro exI [of _ 0]) auto
    qed
  qed
qed

lemma hit_sliceFromEnd:
  assumes "0 < j" "j \<le> w" "j \<le> length d"
  shows "(length (sliceFromEnd w ex) \<ge> j \<and> length d \<ge> j
          \<and> sliceFromEnd j (sliceFromEnd w ex) = take j d) \<longleftrightarrow> spec_overlap ex d j"
proof -
  have w: "w \<noteq> 0" and j: "j \<noteq> 0" using assms by simp_all
  have len: "length (sliceFromEnd w ex) = min w (length ex)"
    using w by (simp add: sliceFromEnd_def)
  show ?thesis
  proof (cases "j \<le> length ex")
    case False
    then show ?thesis
      using assms len by (simp add: spec_overlap_def)
  next
    case True
    then have "length ex - w + (min w (length ex) - j) = length ex - j"
      using assms by (simp add: min_def)
    then show ?thesis
      using True assms w j len
      by (simp add: spec_overlap_def sliceFromEnd_def min_def)
  qed
qed

lemma endsWith_overlap: "endsWith ex d \<longleftrightarrow> spec_overlap ex d (length d)"
  by (simp add: endsWith_def spec_overlap_def)

lemma flushContentToAdd_longest:
  "\<exists>k. fst (flushContentToAdd ex d) = drop k d \<and> spec_overlap ex d k
       \<and> (if ex \<noteq> [] \<and> d \<noteq> [] \<and> spec_overlap ex d (length d) then k = length d
           else (k = 0 \<or> 3 \<le> k) \<and> k \<le> min (length d) 100
                \<and> (\<forall>j. k < j \<and> 3 \<le> j \<and> j \<le> min (length d) 100 \<longrightarrow> \<not> spec_overlap ex d j))"
proof (cases "ex \<noteq> [] \<and> d \<noteq> []")
  case False
  then have "fst (flushContentToAdd ex d) = d"
    by (auto simp: flushContentToAdd_def)
  moreover have "\<not> spec_overlap ex d j" if "3 \<le> j" "j \<le> min (length d) 100" for j
    using that False by (auto simp: spec_overlap_def)
  ultimately show ?thesis
    using False spec_overlap_0 by (intro exI [of _ 0]) auto
next
  case ne: True
  show ?thesis
  proof (cases "endsWith ex d")
    case True
    then have "fst (flushContentToAdd ex d) = drop (length d) d"
      using ne by (simp add: flushContentToAdd_def)
    then show ?thesis
      using True ne endsWith_overlap by (intro exI [of _ "length d"]) auto
  next
    case False
    define w where "w = min (length d) 100"
    define e where "e = sliceFromEnd w ex"
    have c: "flushContentToAdd ex d = overlapLoop e d w"
      using ne False by (simp add: flushContentToAdd_def Let_def w_def e_def)
    let ?hit = "\<lambda>j. length e \<ge> j \<and> length d \<ge> j \<and> sliceFromEnd j e = take j d"
    from overlapLoop_longest [of w e d] obtain k where k: "k \<le> w"
      "overlapLoop e d w = (drop k d, k \<noteq> 0)" "k = 0 \<or> 3 \<le> k" "k \<noteq> 0 \<longrightarrow> ?hit k"
      "\<forall>j. k < j \<and> 3 \<le> j \<and> j \<le> w \<longrightarrow> \<not> ?hit j"
      by blast
    have wd: "w \<le> length d" by (simp add: w_def)
    have 1: "spec_overlap ex d k"
      using k(1,4) wd hit_sliceFromEnd [of k w d ex] spec_overlap_0 e_def by (cases "k = 0") auto
    have 2: "\<not> spec_overlap ex d j" if "k < j" "3 \<le> j" "j \<le> w" for j
      using that k(5) wd hit_sliceFromEnd [of j w d ex] e_def by auto
    have 3: "\<not> spec_overlap ex d (length d)"
      using False endsWith_overlap by simp
    show ?thesis
      using c k(1,2,3) 1 2 3 unfolding w_def [symmetric] by (intro exI [of _ k]) auto
  qed
qed

text \<open>
  Claim C4.  The de-duplicator, as amended.  The reducer's \<^verbatim>\<open>text-delta\<close> case strips
  the longest \<open>k\<close> up to \<open>min (length fragment) 50\<close> for which the last \<open>k\<close> characters of
  the buffer equal the first \<open>k\<close> of the fragment.  The buffer flush strips the whole
  fragment when the non-empty buffer already ends with it, and otherwise the longest such
  \<open>k\<close> between 3 and \<open>min (length fragment) 100\<close>; an overlap of one or two characters is
  kept.  Both append \<^verbatim>\<open>" on the mat"\<close> for the buffer \<^verbatim>\<open>"The cat sat"\<close> and the fragment
  \<^verbatim>\<open>"cat sat on the mat"\<close>.
\<close>

theorem dedup_longest_overlap:
  "(\<exists>k. contentToAdd buffer fragment = drop k fragment
        \<and> k \<le> min (length fragment) 50 \<and> spec_overlap buffer fragment k
        \<and> (\<forall>j. k < j \<and> j \<le> min (length fragment) 50 \<longrightarrow> \<not> spec_overlap buffer fragment j))
   \<and> (\<exists>k. fst (flushContentToAdd buffer fragment) = drop k fragment
        \<and> spec_overlap buffer fragment k
        \<and> (if buffer \<noteq> [] \<and> fragment \<noteq> [] \<and> spec_overlap buffer fragment (length fragment)
            then k = length fragment
            else (k = 0 \<or> 3 \<le> k) \<and> k \<le> min (length fragment) 100
                 \<and> (\<forall>j. k < j \<and> 3 \<le> j \<and> j \<le> min (length fragment) 100
                        \<longrightarrow> \<not> spec_overlap buffer fragment j)))
   \<and> contentToAdd ''The cat sat'' ''cat sat on the mat'' = '' on the mat''
   \<and> fst (flushContentToAdd ''The cat sat'' ''cat sat on the mat'') = '' on the mat''"
proof -
  have a: "contentToAdd ''The cat sat'' ''cat sat on the mat'' = '' on the mat''"
    by code_simp
  have b: "fst (flushContentToAdd ''The cat sat'' ''cat sat on the mat'') = '' on the mat''"
    by code_simp
  show ?thesis
    using contentToAdd_longest [of buffer fragment] flushContentToAdd_longest [of buffer fragment] a b
    by blast
qed

theorem dedup_longest_overlap_witness:
  "contentToAdd ''ab'' ''bc'' = ''c'' \<and> fst (flushContentToAdd ''ab'' ''bc'') = ''bc''
   \<and> spec_overlap ''ab'' ''bc'' 1"
proof -
  have s1: "spec_overlap ''ab'' ''bc'' 1" by (simp add: spec_overlap_def)
  have n2: "\<not> spec_overlap ''ab'' ''bc'' 2" by (simp add: spec_overlap_def)
  have n2': "\<not> spec_overlap ''ab'' ''bc'' (Suc (Suc 0))" by (simp add: spec_overlap_def)
  from dedup_longest_overlap [of "''ab''" "''bc''"]
  obtain k where k: "contentToAdd ''ab'' ''bc'' = drop k ''bc''" "k \<le> min (length ''bc'') 50"
      "\<forall>j. k < j \<and> j \<le> min (length ''bc'') 50 \<longrightarrow> \<not> spec_overlap ''ab'' ''bc'' j"
      "spec_overlap ''ab'' ''bc'' k"
    by blast
  from dedup_longest_overlap [of "''ab''" "''bc''"]
  obtain m where m: "fst (flushContentToAdd ''ab'' ''bc'') = drop m ''bc''"
      "if ''ab'' \<noteq> [] \<and> ''bc'' \<noteq> [] \<and> spec_overlap ''ab'' ''bc'' (length ''bc'')
       then m = length ''bc''
       else (m = 0 \<or> 3 \<le> m) \<and> m \<le> min (length ''bc'') 100
            \<and> (\<forall>j. m < j \<and> 3 \<le> j \<and> j \<le> min (length ''bc'') 100 \<longrightarrow> \<not> spec_overlap ''ab'' ''bc'' j)"
    by blast
  have "k \<le> 2" using k(2) by simp
  moreover have "k \<noteq> 0"
  proof
    assume "k = 0"
    then have "\<not> spec_overlap ''ab'' ''bc'' 1" using k(3) [rule_format, of 1] by simp
    then show False using s1 by simp
  qed
  moreover have "k \<noteq> 2" using k(4) n2 by auto
  ultimately have "k = 1" by arith
  moreover have "m = 0" using m(2) n2' by (auto split: if_splits)
  ultimately show ?thesis using k(1) m(1) s1 by simp
qed

theorem dedup_longest_overlap_counterexample:
  "spec_overlap ''ab'' ''bc'' 1 \<and> fst (flushContentToAdd ''ab'' ''bc'') \<noteq> drop 1 ''bc''"
  by (simp add: spec_overlap_def flushContentToAdd_def endsWith_def sliceFromEnd_def)

lemma textHandlers_cases:
  assumes "h \<in> textHandlers"
  obtains "h = None" | "h = Some textArtifact_onStreamPart"
    | "h = Some textArtifact_onStreamPart_skipBlank"
  using assms unfolding textHandlers_def by blast

lemma isVisible_applyDelta: "isVisible (applyDelta d a) = isVisible a"
  by (cases d) simp_all

lemma isVisible_textArtifact: "isVisible (textArtifact_onStreamPart d a) = isVisible a"
  by (cases d) simp_all

lemma isVisible_textArtifact_skipBlank:
  "isVisible (textArtifact_onStreamPart_skipBlank d a) = isVisible a"
  by (cases d) (simp_all add: Let_def)

lemma isVisible_flushReducer: "isVisible (flushReducer b a) = isVisible a"
  by (simp add: flushReducer_def Let_def split: prod.splits)

text \<open>
  Claim C8.  Visibility is user-driven.  No stream event changes \<open>isVisible\<close>:
  neither through the artifact's handler followed by the reducer, nor through a flush of
  the text buffer.  The click handler of the hitbox sets it.
\<close>

theorem stream_events_keep_visibility:
  assumes "h \<in> textHandlers"
  shows "isVisible (processDelta h d a) = isVisible a
       \<and> isVisible (fst (flushTextBuffer h (a, buffer))) = isVisible a
       \<and> isVisible (handleClick result box a)"
proof -
  have 1: "isVisible (processDelta h d a) = isVisible a"
    using assms
    by (cases rule: textHandlers_cases)
       (simp_all add: processDelta_def isVisible_applyDelta isVisible_textArtifact
          isVisible_textArtifact_skipBlank)
  have 2: "isVisible (fst (flushTextBuffer h (a, buffer))) = isVisible a"
    using assms
    by (cases rule: textHandlers_cases)
       (simp_all add: flushTextBuffer_def isVisible_flushReducer isVisible_textArtifact
          isVisible_textArtifact_skipBlank)
  have 3: "isVisible (handleClick result box a)"
    by (simp add: handleClick_def)
  from 1 2 3 show ?thesis by simp
qed

theorem stream_events_keep_visibility_witness:
  "isVisible (processDelta (Some textArtifact_onStreamPart) (Finish [])
       (initialArtifactData\<lparr>isVisible := True\<rparr>))
   \<and> \<not> isVisible (processDelta None (TextDelta ''abc'') initialArtifactData)"
proof -
  have h1: "Some textArtifact_onStreamPart \<in> textHandlers" and h2: "None \<in> textHandlers"
    by (simp_all add: textHandlers_def)
  show ?thesis
    using stream_events_keep_visibility [OF h1, of "Finish []" "initialArtifactData\<lparr>isVisible := True\<rparr>"]
      stream_events_keep_visibility [OF h2, of "TextDelta ''abc''" initialArtifactData]
    by (simp add: initialArtifactData_def)
qed

text \<open>
  Claim C2.  Finish, as amended.  After \<^verbatim>\<open>finish\<close> the status is \<open>idle\<close> and the
  content is what it was; a duplicate \<^verbatim>\<open>finish\<close> on an idle artifact changes nothing.  A
  later \<^verbatim>\<open>text-delta\<close> is not rejected: it is applied as during streaming, extending the
  content and setting the status back to \<open>streaming\<close>.  The reducer is total, so no event
  is fatal.
\<close>

theorem finish_then_late_events:
  assumes "h \<in> textHandlers"
  shows "status (processDelta h (Finish x) a) = idle
       \<and> content (processDelta h (Finish x) a) = content a
       \<and> (status a = idle \<longrightarrow> processDelta h (Finish x) a = a)
       \<and> status (processDelta h (TextDelta c) a) = streaming
       \<and> prefix (content a) (content (processDelta h (TextDelta c) a))
       \<and> content (processDelta None (TextDelta c) a) = content a @ contentToAdd (content a) c"
proof -
  have 1: "status (processDelta h (Finish x) a) = idle \<and> content (processDelta h (Finish x) a) = content a"
    using assms by (cases rule: textHandlers_cases) (simp_all add: processDelta_def)
  have 2: "processDelta h (Finish x) a = a" if "status a = idle"
    using assms that by (cases rule: textHandlers_cases) (simp_all add: processDelta_def)
  have 3: "status (processDelta h (TextDelta c) a) = streaming"
    by (simp add: processDelta_def)
  have 4: "content (processDelta None (TextDelta c) a) = content a @ contentToAdd (content a) c"
    by (simp add: processDelta_def)
  have 5: "prefix (content a) (content (processDelta h (TextDelta c) a))"
    using prefix_processDelta [OF assms, of "TextDelta c"] by simp
  from 1 2 3 4 5 show ?thesis by blast
qed

theorem finish_then_late_events_witness:
  "status (processDelta None (Finish []) (initialArtifactData\<lparr>content := ''Hello''\<rparr>)) = idle
   \<and> content (processDelta None (TextDelta '' world'')
        (processDelta None (Finish []) (initialArtifactData\<lparr>content := ''Hello''\<rparr>)))
      = ''Hello world''"
proof -
  have h: "None \<in> textHandlers" by (simp add: textHandlers_def)
  have c: "contentToAdd ''Hello'' '' world'' = '' world''" by code_simp
  have i: "status (initialArtifactData\<lparr>content := ''Hello''\<rparr>) = idle"
    by (simp add: initialArtifactData_def)
  let ?a = "initialArtifactData\<lparr>content := ''Hello''\<rparr>"
  from finish_then_late_events [OF h, of "[]" ?a] i
  have f: "processDelta None (Finish []) ?a = ?a" "status (processDelta None (Finish []) ?a) = idle"
    by simp_all
  from finish_then_late_events [OF h, of _ ?a "'' world''"]
  have "content (processDelta None (TextDelta '' world'') ?a) = content ?a @ contentToAdd (content ?a) '' world''"
    by simp
  with f c show ?thesis by simp
qed

theorem finish_finality_counterexample:
  "content (processDelta None (TextDelta '' world'')
      (processDelta None (Finish []) (initialArtifactData\<lparr>content := ''Hello''\<rparr>)))
   \<noteq> content (processDelta None (Finish []) (initialArtifactData\<lparr>content := ''Hello''\<rparr>))"
proof -
  have c: "contentToAdd ''Hello'' '' world'' = '' world''" by code_simp
  show ?thesis by (simp add: processDelta_def c)
qed

text \<open>
  Claim C10.  Blank fragments, as amended.  The text artifact's handler leaves the
  content unchanged for a \<^verbatim>\<open>text-delta\<close> that is empty or all white space.  The buffering
  handler leaves its buffer unchanged for a batch whose joined text deltas trim to
  nothing; otherwise it adds the whole join, blank fragments of the batch included.
\<close>

theorem blank_fragments_when_dropped:
  "(trim c = [] \<longrightarrow> content (textArtifact_onStreamPart_skipBlank (TextDelta c) a) = content a)
   \<and> (trim (concat (textDeltasOf newDeltas)) = [] \<longrightarrow> bufferTextDeltas newDeltas buffer = buffer)
   \<and> (trim (concat (textDeltasOf newDeltas)) \<noteq> [] \<longrightarrow>
        bufferTextDeltas newDeltas buffer = buffer @ concat (textDeltasOf newDeltas))"
  by (auto simp: bufferTextDeltas_def Let_def)

theorem blank_fragments_when_dropped_witness:
  "content (textArtifact_onStreamPart_skipBlank (TextDelta ''  '') initialArtifactData) = []
   \<and> bufferTextDeltas [TextDelta '' '', TextDelta []] ''abc'' = ''abc''
   \<and> bufferTextDeltas [TextDelta ''a'', TextDelta '' '', TextDelta ''b''] [] = ''a b''"
proof -
  have t1: "trim ''  '' = []" by (simp add: trim_def trimStart_def trimEnd_def jsWhiteSpace_def)
  have t2: "trim (concat (textDeltasOf [TextDelta '' '', TextDelta []])) = []"
    by (simp add: trim_def trimStart_def trimEnd_def jsWhiteSpace_def)
  have t3: "trim (concat (textDeltasOf [TextDelta ''a'', TextDelta '' '', TextDelta ''b''])) \<noteq> []"
    by (simp add: trim_def trimStart_def trimEnd_def jsWhiteSpace_def)
  show ?thesis
    using blank_fragments_when_dropped [of "''  ''" initialArtifactData "[TextDelta '' '', TextDelta []]" "''abc''"]
      blank_fragments_when_dropped [of "''  ''" initialArtifactData "[TextDelta ''a'', TextDelta '' '', TextDelta ''b'']" "[]"]
      t1 t2 t3
    by (simp add: initialArtifactData_def)
qed

theorem blank_fragment_kept_in_batch_counterexample:
  "content (fst (flushTextBuffer (Some textArtifact_onStreamPart_skipBlank)
      (initialArtifactData, bufferTextDeltas [TextDelta ''a'', TextDelta '' '', TextDelta ''b''] [])))
     = ''a b''
   \<and> content (fst (flushTextBuffer (Some textArtifact_onStreamPart_skipBlank)
      (initialArtifactData, bufferTextDeltas [TextDelta ''a'', TextDelta ''b''] [])))
     = ''ab''"
  by (simp add: flushTextBuffer_def bufferTextDeltas_def flushReducer_def flushContentToAdd_def
      endsWith_def initialArtifactData_def trim_def trimStart_def trimEnd_def jsWhiteSpace_def Let_def)

section \<open>Properties of the decoders and of createDocumentHandler\<close>

lemma startsWith_single: "startsWith s [c] \<longleftrightarrow> (\<exists>r. s = c # r)"
  by (cases s) (auto simp: startsWith_def)

lemma splitAcc_not_Nil: "splitAcc sep acc s \<noteq> []"
proof (induction sep acc s rule: splitAcc.induct)
  case (1 sep acc s)
  then show ?case by (subst splitAcc.simps) auto
qed

lemma join_splitAcc: "join [c] (splitAcc [c] acc s) = acc @ s"
proof (induction "[c]" acc s rule: splitAcc.induct)
  case (1 acc s)
  show ?case
  proof (cases s)
    case Nil
    then show ?thesis by (simp add: splitAcc.simps [of "[c]" acc "[]"])
  next
    case (Cons x xs)
    show ?thesis
    proof (cases "x = c")
      case True
      then have sw: "startsWith s [c]" using Cons by (simp add: startsWith_single)
      have "splitAcc [c] acc s = acc # splitAcc [c] [] xs"
        using sw Cons by (subst splitAcc.simps) simp
      moreover have "join [c] (splitAcc [c] [] xs) = xs"
        using "1.hyps"(1) [of ] sw Cons by simp
      moreover have "splitAcc [c] [] xs \<noteq> []"
        by (rule splitAcc_not_Nil)
      ultimately show ?thesis
        using True Cons by (cases "splitAcc [c] [] xs") simp_all
    next
      case False
      then have sw: "\<not> startsWith s [c]" using Cons by (simp add: startsWith_single)
      have "splitAcc [c] acc s = splitAcc [c] (acc @ [x]) xs"
        using sw Cons by (subst splitAcc.simps) simp
      moreover have "join [c] (splitAcc [c] (acc @ [x]) xs) = (acc @ [x]) @ xs"
        using "1.hyps"(2) sw Cons by simp
      ultimately show ?thesis using Cons by simp
    qed
  qed
qed

lemma splitAcc_first:
  assumes "c \<notin> set first"
  shows "splitAcc [c] acc (first @ c # rest) = (acc @ first) # splitAcc [c] [] rest"
  using assms
proof (induction first arbitrary: acc)
  case Nil
  have "startsWith (c # rest) [c]" by (simp add: startsWith_single)
  then show ?case by (subst splitAcc.simps) simp
next
  case (Cons x xs)
  then have "\<not> startsWith ((x # xs) @ c # rest) [c]" by (auto simp: startsWith_single)
  then have "splitAcc [c] acc ((x # xs) @ c # rest) = splitAcc [c] (acc @ [x]) (xs @ c # rest)"
    by (subst splitAcc.simps) simp
  with Cons show ?case by simp
qed

lemma split_first_line:
  assumes "newline \<notin> set first"
  shows "split [newline] (first @ newline # rest) = first # split [newline] rest"
    and "join [newline] (split [newline] rest) = rest"
    and "split [newline] rest \<noteq> []"
  using splitAcc_first [OF assms, of "[]" rest] join_splitAcc [of newline "[]" rest]
    splitAcc_not_Nil [of "[newline]" "[]" rest]
  by (simp_all add: split_def)

lemma trim_Nil_raw: "trim raw \<noteq> [] \<Longrightarrow> raw \<noteq> []"
  by (auto simp: trim_def trimStart_def trimEnd_def)

text \<open>
  Claim C9.  The code decoder, as amended.  When the trimmed raw content has a first
  line that, trimmed and in lower case, is a valid language tag, and has more lines after
  it, the decoder returns that language and the trimmed rest as the payload.  A tag line
  with nothing after it is not taken as a tag.
\<close>

theorem code_first_line_tag:
  assumes "trim raw = first @ newline # rest"
    and "newline \<notin> set first"
    and "isValidLanguage (toLowerCase (trim first)) = Some l"
  shows "processCodeOutput raw = \<lparr>language = l, code = trim rest\<rparr>"
proof -
  have ne: "trim raw \<noteq> []" "raw \<noteq> []" using assms(1) trim_Nil_raw by auto
  note sp = split_first_line [OF assms(2), of rest]
  have "length (split [newline] (trim raw)) > 1"
    using sp(1,3) assms(1) by (cases "split [newline] rest") simp_all
  then show ?thesis
    using ne sp assms by (simp add: processCodeOutput_def Let_def)
qed

theorem code_first_line_tag_witness:
  "processCodeOutput (''python'' @ [newline] @ ''def f():'' @ [newline] @ ''    return 1'' @ [newline])
     = \<lparr>language = Python, code = ''def f():'' @ [newline] @ ''    return 1''\<rparr>"
proof -
  let ?raw = "''python'' @ [newline] @ ''def f():'' @ [newline] @ ''    return 1'' @ [newline]"
  let ?rest = "''def f():'' @ [newline] @ ''    return 1''"
  have 1: "trim ?raw = ''python'' @ newline # ?rest"
    by (simp add: trim_def trimStart_def trimEnd_def jsWhiteSpace_def newline_def)
  have 2: "newline \<notin> set ''python''" by (simp add: newline_def)
  have 3: "isValidLanguage (toLowerCase (trim ''python'')) = Some Python"
    by code_simp
  have 4: "trim ?rest = ?rest"
    by (simp add: trim_def trimStart_def trimEnd_def jsWhiteSpace_def newline_def)
  from code_first_line_tag [OF 1 2 3] 4 show ?thesis by simp
qed

theorem code_tag_line_alone_counterexample:
  "processCodeOutput (''python'' @ [newline]) = \<lparr>language = LangText, code = ''python''\<rparr>"
  by code_simp

lemma sheetLoop_failure:
  "StreamFailure \<in> set events \<Longrightarrow> snd (sheetLoop st events) = Some ProviderStreamError"
proof (induction events arbitrary: st)
  case Nil
  then show ?case by simp
next
  case (Cons ev events)
  then show ?case by (cases ev) auto
qed

lemma codeUpdateLoop_failure:
  "StreamFailure \<in> set events \<Longrightarrow> snd (codeUpdateLoop l st events) = Some ProviderStreamError"
proof (induction events arbitrary: st)
  case Nil
  then show ?case by simp
next
  case (Cons ev events)
  then show ?case by (cases ev) auto
qed

lemma sheet_update_failure:
  "StreamFailure \<in> set events \<Longrightarrow> snd (sheetDocumentHandler_update doc events) = Inl ProviderStreamError"
proof -
  assume "StreamFailure \<in> set events"
  then obtain st' where
    "sheetLoop \<lparr>sheetDraft = [], sheetBuffer = [], headerReceived = False, sheetWritten = []\<rparr> events
       = (st', Some ProviderStreamError)"
    using sheetLoop_failure by (metis prod.collapse)
  then show ?thesis
    by (simp add: sheetDocumentHandler_update_def sheetDocumentHandler_onUpdateDocument_def
        sheetStream_def)
qed

lemma code_update_failure:
  "StreamFailure \<in> set events \<Longrightarrow> snd (codeDocumentHandler_update doc events) = Inl ProviderStreamError"
proof -
  assume "StreamFailure \<in> set events"
  then obtain st' where
    "codeUpdateLoop (language (processCodeOutput (case docContent doc of None \<Rightarrow> [] | Some c \<Rightarrow> c)))
       \<lparr>codeDraft = [], codeBuffer = [], languageDetected = False, codeWritten = []\<rparr> events
       = (st', Some ProviderStreamError)"
    using codeUpdateLoop_failure by (metis prod.collapse)
  then show ?thesis
    by (simp add: codeDocumentHandler_update_def codeDocumentHandler_onUpdateDocument_def Let_def)
qed

lemma update_throws:
  assumes "updateLocks st (docId doc) \<noteq> Some True"
    and "snd (configOnUpdate doc fullStream) = Inl e"
  shows "snd (createDocumentHandler_onUpdateDocument k configOnUpdate doc session fullStream st) = Inl e"
    and "savedDocuments (fst (createDocumentHandler_onUpdateDocument k configOnUpdate doc session fullStream st))
         = savedDocuments st"
    and "updateLocks (fst (createDocumentHandler_onUpdateDocument k configOnUpdate doc session fullStream st))
           (docId doc) = None"
  using assms
  by (auto simp: createDocumentHandler_onUpdateDocument_def Let_def split: prod.splits)

text \<open>
  Claim C5.  Provider failure, as amended.  If the provider stream fails during an
  update of a code or sheet document, the operation fails with the provider's error,
  the lock of the document is released, and nothing is saved: the content accumulated up
  to the failure is dropped.  The configured callback is applied once, so nothing is
  retried.
\<close>

theorem provider_failure_on_update:
  assumes "updateLocks st (docId doc) \<noteq> Some True"
    and "StreamFailure \<in> set fullStream"
    and "h = (KindCode, codeDocumentHandler_update) \<or> h = (KindSheet, sheetDocumentHandler_update)"
  shows "snd (createDocumentHandler_onUpdateDocument (fst h) (snd h) doc session fullStream st)
           = Inl ProviderStreamError
       \<and> savedDocuments (fst (createDocumentHandler_onUpdateDocument (fst h) (snd h) doc session fullStream st))
           = savedDocuments st
       \<and> updateLocks (fst (createDocumentHandler_onUpdateDocument (fst h) (snd h) doc session fullStream st))
           (docId doc) = None"
proof -
  have "snd (snd h doc fullStream) = Inl ProviderStreamError"
    using assms(2,3) sheet_update_failure code_update_failure by auto
  from update_throws [where configOnUpdate = "snd h", OF assms(1) this] show ?thesis by simp
qed

theorem provider_failure_on_update_witness:
  "snd (createDocumentHandler_onUpdateDocument KindSheet sheetDocumentHandler_update sampleSheetDocument
          \<lparr>sessionUserId = Some ''user-1''\<rparr> failingSheetStream emptyServerState)
     = Inl ProviderStreamError
   \<and> savedDocuments (fst (createDocumentHandler_onUpdateDocument KindSheet sheetDocumentHandler_update
          sampleSheetDocument \<lparr>sessionUserId = Some ''user-1''\<rparr> failingSheetStream emptyServerState))
     = []"
proof -
  have 1: "updateLocks emptyServerState (docId sampleSheetDocument) \<noteq> Some True"
    by (simp add: emptyServerState_def)
  have 2: "StreamFailure \<in> set failingSheetStream"
    by (simp add: failingSheetStream_def)
  from provider_failure_on_update [OF 1 2, of "(KindSheet, sheetDocumentHandler_update)"]
  show ?thesis by (simp add: emptyServerState_def)
qed

theorem partial_content_not_persisted_counterexample:
  "sheetDraft (fst (sheetLoop \<lparr>sheetDraft = [], sheetBuffer = [], headerReceived = False, sheetWritten = []\<rparr>
       failingSheetStream)) = ''a,b'' @ [newline] @ ''1,2'' @ [newline]
   \<and> getDocumentById (fst (createDocumentHandler_onUpdateDocument KindSheet sheetDocumentHandler_update
          sampleSheetDocument \<lparr>sessionUserId = Some ''user-1''\<rparr> failingSheetStream emptyServerState))
        ''doc-1'' = None"
  by code_simp

text \<open>
  Claim C1.  Reload consistency.  For a sheet whose model output is wrapped in a fenced
  block, the final delta (with the \<^verbatim>\<open>complete\<close> flag) carries the extracted CSV, while
  the snapshot saved for the document, which a reload fetches, is the raw output with its
  fences.
\<close>

theorem sheet_snapshot_differs_from_final_delta:
  "finalDelta (dataStream (fst (createDocumentHandler_onCreateDocument KindSheet
       sheetDocumentHandler_onCreateDocument ''doc-1'' ''Budget'' \<lparr>sessionUserId = Some ''user-1''\<rparr>
       fencedSheetStream emptyServerState)))
     = Some (''a,b'' @ [newline] @ ''1,2'')
   \<and> map_option saveContent (getDocumentById (fst (createDocumentHandler_onCreateDocument KindSheet
       sheetDocumentHandler_onCreateDocument ''doc-1'' ''Budget'' \<lparr>sessionUserId = Some ''user-1''\<rparr>
       fencedSheetStream emptyServerState)) ''doc-1'')
     = Some (fence @ ''csv'' @ [newline] @ ''a,b'' @ [newline] @ ''1,2'' @ [newline] @ fence)"
  by code_simp

section \<open>Properties of the message merger\<close>

lemma sanitizeUIMessages_mergePairs:
  "sanitizeUIMessages msgs
     = mergePairs (\<lambda>m n. hasDocumentContent m n \<or> hasDocumentTool m n) mergedUIMessage msgs"
  by (induction msgs rule: sanitizeUIMessages.induct) auto

lemma mergeDocumentMessages_mergePairs:
  "mergeDocumentMessages msgs
     = mergePairs (\<lambda>m n. hasDocumentTools m \<or> hasDocumentTools n) mergedMessage msgs"
  by (induction msgs rule: mergeDocumentMessages.induct) auto

lemma role_mergedUIMessage: "role (mergedUIMessage m n) = role m"
  by (simp add: mergedUIMessage_def Let_def)

lemma role_mergedMessage: "role (mergedMessage m n) = role m"
  by (simp add: mergedMessage_def)

lemma mergePairs_stable: "stablePairs c msgs \<Longrightarrow> mergePairs c g msgs = msgs"
  by (induction c g msgs rule: mergePairs.induct) auto

lemma mergePairs_head_role:
  assumes "\<forall>a b. role (g a b) = role a"
  shows "mergePairs c g (m # rest) \<noteq> [] \<and> role (hd (mergePairs c g (m # rest))) = role m"
  using assms by (cases rest) auto

lemma noThreeAssistants_tl: "noThreeAssistants (m # rest) \<Longrightarrow> noThreeAssistants rest"
  by (cases rest; cases "tl rest") auto

lemma stablePairs_Cons:
  "stablePairs c (a # xs) \<longleftrightarrow>
     (xs = [] \<or> \<not> (role a = Assistant \<and> role (hd xs) = Assistant \<and> c a (hd xs)) \<and> stablePairs c xs)"
  by (cases xs) auto

lemma mergePairs_two_assistants:
  assumes "role m = Assistant" "role n = Assistant" "noThreeAssistants (m # n # rest)"
  shows "mergePairs c g (n # rest) = n # mergePairs c g rest"
  using assms by (cases rest) auto

lemma stable_after_merge:
  "\<forall>a b. role (g a b) = role a \<Longrightarrow> noThreeAssistants msgs \<Longrightarrow> stablePairs c (mergePairs c g msgs)"
proof (induction c g msgs rule: mergePairs.induct)
  case (1 c g)
  then show ?case by simp
next
  case (2 c g m)
  then show ?case by simp
next
  case (3 c g m n rest)
  note g = "3.prems"(1)
  note nta = "3.prems"(2)
  show ?case
  proof (cases "role m = Assistant \<and> role n = Assistant \<and> c m n")
    case True
    have nt: "noThreeAssistants rest"
      using nta noThreeAssistants_tl by blast
    have st: "stablePairs c (mergePairs c g rest)"
      using "3.IH"(1) True nt g by simp
    have "rest = [] \<or> role (hd (mergePairs c g rest)) \<noteq> Assistant"
    proof (cases rest)
      case Nil
      then show ?thesis by simp
    next
      case (Cons r rest')
      then have "role r \<noteq> Assistant" using nta True by auto
      then show ?thesis using mergePairs_head_role [where g = g and c = c and m = r and rest = rest', OF g] Cons by simp
    qed
    then show ?thesis
      using True st by (cases rest) (auto simp: stablePairs_Cons)
  next
    case False
    have nt: "noThreeAssistants (n # rest)"
      using nta noThreeAssistants_tl by blast
    have st: "stablePairs c (mergePairs c g (n # rest))"
      using "3.IH"(2) False nt g by simp
    have hr: "mergePairs c g (n # rest) \<noteq> []" "role (hd (mergePairs c g (n # rest))) = role n"
      using mergePairs_head_role [where g = g and c = c and m = n and rest = rest, OF g] by simp_all
    have "\<not> (role m = Assistant \<and> role (hd (mergePairs c g (n # rest))) = Assistant
             \<and> c m (hd (mergePairs c g (n # rest))))"
    proof (cases "role m = Assistant \<and> role n = Assistant")
      case True
      then have "mergePairs c g (n # rest) = n # mergePairs c g rest"
        using mergePairs_two_assistants nta by blast
      then show ?thesis using False by simp
    next
      case F: False
      then show ?thesis using hr by auto
    qed
    moreover have "mergePairs c g (m # n # rest) = m # mergePairs c g (n # rest)"
      using False by auto
    ultimately show ?thesis
      using st hr by (simp only: stablePairs_Cons) blast
  qed
qed

lemma mergePairs_idem:
  assumes "\<forall>a b. role (g a b) = role a" "noThreeAssistants msgs"
  shows "mergePairs c g (mergePairs c g msgs) = mergePairs c g msgs"
  using mergePairs_stable stable_after_merge assms by blast

text \<open>
  Claim C6.  Merger idempotence, as amended.  On a message list in which no three
  consecutive messages are all from the assistant, both merge loops are idempotent: a
  second run merges no further pair.  (With three assistant messages in a row a second
  run can merge the first merge with the message after it.)
\<close>

theorem merger_idempotent_on_split_turns:
  assumes "noThreeAssistants msgs"
  shows "sanitizeUIMessages (sanitizeUIMessages msgs) = sanitizeUIMessages msgs
       \<and> mergeDocumentMessages (mergeDocumentMessages msgs) = mergeDocumentMessages msgs"
  using mergePairs_idem [where g = mergedUIMessage, OF _ assms]
    mergePairs_idem [where g = mergedMessage, OF _ assms]
    role_mergedUIMessage role_mergedMessage
  by (simp add: sanitizeUIMessages_mergePairs mergeDocumentMessages_mergePairs)

theorem merger_idempotent_on_split_turns_witness:
  "sanitizeUIMessages (sanitizeUIMessages [leadIn, created]) = sanitizeUIMessages [leadIn, created]
   \<and> mergeDocumentMessages (mergeDocumentMessages [leadIn, created]) = mergeDocumentMessages [leadIn, created]
   \<and> map messageContent (mergeDocumentMessages [leadIn, created])
       = [''Let me create a document for you with a structured essay on this topic. I''
          @ [CHR 0x27] @ ''ve created the essay.'']"
proof -
  have h: "noThreeAssistants [leadIn, created]" by simp
  have c: "map messageContent (mergeDocumentMessages [leadIn, created])
       = [''Let me create a document for you with a structured essay on this topic. I''
          @ [CHR 0x27] @ ''ve created the essay.'']"
    by code_simp
  from merger_idempotent_on_split_turns [OF h] c show ?thesis by blast
qed

theorem merger_second_pass_merges_further_counterexample:
  "sanitizeUIMessages (sanitizeUIMessages [shortLeadIn, shortCreated, shortFollowUp])
     \<noteq> sanitizeUIMessages [shortLeadIn, shortCreated, shortFollowUp]
   \<and> mergeDocumentMessages (mergeDocumentMessages [shortLeadIn, shortCreated, shortFollowUp])
     \<noteq> mergeDocumentMessages [shortLeadIn, shortCreated, shortFollowUp]"
proof -
  have 1: "length (sanitizeUIMessages (sanitizeUIMessages [shortLeadIn, shortCreated, shortFollowUp])) = 1"
    by code_simp
  have 2: "length (sanitizeUIMessages [shortLeadIn, shortCreated, shortFollowUp]) = 2"
    by code_simp
  have 3: "length (mergeDocumentMessages (mergeDocumentMessages [shortLeadIn, shortCreated, shortFollowUp])) = 1"
    by code_simp
  have 4: "length (mergeDocumentMessages [shortLeadIn, shortCreated, shortFollowUp]) = 2"
    by code_simp
  have "xs \<noteq> ys" if "length xs = 1" "length ys = 2" for xs ys :: "Message list"
    using that by auto
  with 1 2 3 4 show ?thesis by blast
qed

end
